theory Spec2Isabelle
  imports Complex_Main "HOL-Library.Char_ord" "HOL-Library.List_Lexorder"
    "HOL-Library.Product_Lexorder" "HOL-Library.Multiset" "HOL-Library.Word"
begin

section \<open>Python values and strings\<close>

text \<open>
  A Python \<open>str\<close> is modelled by its UTF-8 encoding, a \<^typ>\<open>string\<close> with one
  \<^typ>\<open>char\<close> per byte; this is also the form in which SQLite stores and compares text.
  Concatenation, comparison with ASCII text and replacement of ASCII characters act on the
  encoding as they act on the \<open>str\<close>; only \<open>strip\<close> has to look at whole characters.
  The values that occur in a row dictionary built from an SQLite row are \<open>None\<close>,
  integers and strings.
\<close>

datatype py_val = PyNone | PyInt int | PyStr string

definition newline :: char where
  "newline = CHR 0x0A"

definition comma :: char where
  "comma = CHR '',''"

definition space :: char where
  "space = CHR '' ''"

definition digit_char :: "nat \<Rightarrow> char" where
  "digit_char d = ''0123456789'' ! d"

text \<open>Decimal digits of a natural number, most significant first.\<close>

fun digits10 :: "nat \<Rightarrow> string" where
  "digits10 n = (if n < 10 then [digit_char n]
                 else digits10 (n div 10) @ [digit_char (n mod 10)])"

declare digits10.simps [simp del]

text \<open>\<open>str(i)\<close> for a Python integer.\<close>

definition str_int :: "int \<Rightarrow> string" where
  "str_int i = (if i < 0 then CHR ''-'' # digits10 (nat (- i)) else digits10 (nat i))"

text \<open>\<open>str(v)\<close>.\<close>

fun py_str :: "py_val \<Rightarrow> string" where
  "py_str PyNone = ''None''"
| "py_str (PyInt i) = str_int i"
| "py_str (PyStr s) = s"

text \<open>\<open>s.replace(old, new)\<close> where \<open>old\<close> and \<open>new\<close> are single characters.\<close>

definition replace_char :: "char \<Rightarrow> char \<Rightarrow> string \<Rightarrow> string" where
  "replace_char old new s = map (\<lambda>c. if c = old then new else c) s"

text \<open>\<open>sep.join(xs)\<close>.\<close>

fun join :: "string \<Rightarrow> string list \<Rightarrow> string" where
  "join sep [] = []"
| "join sep [x] = x"
| "join sep (x # y # ys) = x @ sep @ join sep (y # ys)"

text \<open>\<open>s.split(sep)\<close> for a single-character separator: used to read lines and fields
  back out of the CSV text.\<close>

fun split_char :: "char \<Rightarrow> string \<Rightarrow> string list" where
  "split_char sep [] = [[]]"
| "split_char sep (c # cs) =
     (if c = sep then [] # split_char sep cs
      else (case split_char sep cs of
              [] \<Rightarrow> [[c]]
            | w # ws \<Rightarrow> (c # w) # ws))"


text \<open>The number of bytes of the character whose encoding starts with byte \<open>c\<close>.\<close>

definition utf8_len :: "char \<Rightarrow> nat" where
  "utf8_len c =
     (let b = (of_char c :: nat)
      in if b < 0xC0 then 1 else if b < 0xE0 then 2 else if b < 0xF0 then 3 else 4)"

text \<open>The characters of a string, each as its encoding.\<close>

fun utf8_chars :: "string \<Rightarrow> string list" where
  "utf8_chars [] = []"
| "utf8_chars (c # cs) =
     (c # take (utf8_len c - 1) cs) # utf8_chars (drop (utf8_len c - 1) cs)"

text \<open>The characters for which \<open>str.isspace()\<close> holds, which are those that \<open>str.strip()\<close>
  removes: U+0009 to U+000D, U+001C to U+0020, U+0085, U+00A0, U+1680, U+2000 to U+200A,
  U+2028, U+2029, U+202F, U+205F and U+3000.\<close>

definition whitespace :: "string list" where
  "whitespace =
     [[CHR 0x09], [CHR 0x0A], [CHR 0x0B], [CHR 0x0C], [CHR 0x0D],
      [CHR 0x1C], [CHR 0x1D], [CHR 0x1E], [CHR 0x1F], [CHR 0x20],
      [CHR 0xC2, CHR 0x85], [CHR 0xC2, CHR 0xA0],
      [CHR 0xE1, CHR 0x9A, CHR 0x80],
      [CHR 0xE2, CHR 0x80, CHR 0x80], [CHR 0xE2, CHR 0x80, CHR 0x81],
      [CHR 0xE2, CHR 0x80, CHR 0x82], [CHR 0xE2, CHR 0x80, CHR 0x83],
      [CHR 0xE2, CHR 0x80, CHR 0x84], [CHR 0xE2, CHR 0x80, CHR 0x85],
      [CHR 0xE2, CHR 0x80, CHR 0x86], [CHR 0xE2, CHR 0x80, CHR 0x87],
      [CHR 0xE2, CHR 0x80, CHR 0x88], [CHR 0xE2, CHR 0x80, CHR 0x89],
      [CHR 0xE2, CHR 0x80, CHR 0x8A],
      [CHR 0xE2, CHR 0x80, CHR 0xA8], [CHR 0xE2, CHR 0x80, CHR 0xA9],
      [CHR 0xE2, CHR 0x80, CHR 0xAF],
      [CHR 0xE2, CHR 0x81, CHR 0x9F],
      [CHR 0xE3, CHR 0x80, CHR 0x80]]"

text \<open>\<open>ch.isspace()\<close> for one character, given as its encoding.\<close>

definition isspace :: "string \<Rightarrow> bool" where
  "isspace ch = (ch \<in> set whitespace)"

text \<open>\<open>s.strip()\<close>: the whitespace characters at both ends are removed.\<close>

definition strip :: "string \<Rightarrow> string" where
  "strip s = concat (rev (dropWhile isspace (rev (dropWhile isspace (utf8_chars s)))))"

text \<open>\<open>s.startswith(p)\<close>.\<close>

definition startswith :: "string \<Rightarrow> string \<Rightarrow> bool" where
  "startswith s p = (take (length p) s = p)"

text \<open>\<open>'%0wd' % n\<close> for a natural number: decimal digits, padded with zeros on the left
  to at least \<open>w\<close> characters.\<close>

definition zero_pad :: "nat \<Rightarrow> nat \<Rightarrow> string" where
  "zero_pad w n = replicate (w - length (digits10 n)) (CHR ''0'') @ digits10 n"

section \<open>CSV export\<close>

text \<open>A row as returned by \<open>dict(row)\<close>: a dictionary from column names to values, kept as
  the list of its items in insertion order (a Python dictionary has no duplicate keys).\<close>

type_synonym row_dict = "(string \<times> py_val) list"

definition header :: "string list" where
  "header = [''travel_date'', ''travel_time'', ''route_name'', ''duration_minutes'',
             ''notes'', ''created_at'']"

text \<open>\<open>log.get(col, "")\<close>.\<close>

definition dict_get :: "row_dict \<Rightarrow> string \<Rightarrow> py_val" where
  "dict_get entry col = (case map_of entry col of None \<Rightarrow> PyStr [] | Some v \<Rightarrow> v)"

text \<open>The list comprehension of \<open>build_csv\<close>:
  \<open>[str(log.get(col, "")).replace("\n", " ").replace(",", " ") for col in header]\<close>.\<close>

definition csv_row :: "row_dict \<Rightarrow> string list" where
  "csv_row entry =
     map (\<lambda>col. replace_char comma space (replace_char newline space (py_str (dict_get entry col))))
         header"

text \<open>The \<open>for log in logs\<close> loop, appending one joined line per row (the loop variable
  \<open>log\<close> is called \<open>entry\<close> here, \<open>log\<close> being the logarithm in HOL).\<close>

fun csv_loop :: "string list \<Rightarrow> row_dict list \<Rightarrow> string list" where
  "csv_loop lines [] = lines"
| "csv_loop lines (entry # logs) = csv_loop (lines @ [join [comma] (csv_row entry)]) logs"

definition build_csv :: "row_dict list \<Rightarrow> string" where
  "build_csv logs = join [newline] (csv_loop [join [comma] header] logs)"

section \<open>Errors and user-interface output\<close>

text \<open>The exceptions that the modelled code can raise.\<close>

datatype py_error =
    OSError             \<comment> \<open>opening or reading \<open>config.txt\<close> fails other than by \<open>FileNotFoundError\<close>\<close>
  | RequestException    \<comment> \<open>\<open>requests.post\<close> obtains no response\<close>
  | JSONDecodeError     \<comment> \<open>\<open>response.json()\<close> on a body that is not JSON\<close>
  | KeyError            \<comment> \<open>\<open>["output"]\<close> on a dictionary without that key\<close>
  | TypeError           \<comment> \<open>\<open>["output"]\<close> on a JSON value that is not a dictionary\<close>
  | AttributeError      \<comment> \<open>a session-state attribute that was never set\<close>
  | OverflowError       \<comment> \<open>a Python integer too large to convert to an SQLite \<open>INTEGER\<close>\<close>
  | IntegerOverflow     \<comment> \<open>\<open>sqlite3.OperationalError\<close>: integer overflow\<close>
  | DatabaseFull        \<comment> \<open>\<open>sqlite3.OperationalError\<close>: database or disk is full\<close>

text \<open>The fixed texts shown to the user, named by what they say.\<close>

datatype msg =
    Msg_webhook_url_not_set      \<comment> \<open>the webhook URL is not configured (line 34)\<close>
  | Msg_create_config_file       \<comment> \<open>create config.txt with the URL on its first line (line 35)\<close>
  | Msg_enter_route_name         \<comment> \<open>please enter a route name (line 155)\<close>
  | Msg_saved                    \<comment> \<open>the commute time was saved (line 164)\<close>
  | Msg_no_logs                  \<comment> \<open>no records stored yet (line 179)\<close>
  | Msg_no_summary               \<comment> \<open>no data for statistics (line 187)\<close>

section \<open>Webhook URL resolution\<close>

text \<open>What \<open>open('config.txt', 'r', encoding='utf-8')\<close> followed by \<open>f.read()\<close> gives.\<close>

datatype file_read = FileNotFound | FileUnreadable | FileContent string

text \<open>Lines 24 to 29: \<open>os.environ.get("WEBHOOK_URL")\<close>, used when it is a non-empty
  string. The argument is the value of the variable after \<open>load_dotenv()\<close>, \<open>None\<close> when it
  is not set.\<close>

definition webhook_url_from_env :: "string option \<Rightarrow> string option" where
  "webhook_url_from_env env_value =
     (case env_value of
        None \<Rightarrow> None
      | Some webhook_url \<Rightarrow> if webhook_url \<noteq> [] then Some webhook_url else None)"

definition load_webhook_url :: "file_read \<Rightarrow> string option \<Rightarrow> py_error + string option" where
  "load_webhook_url config env_value =
     (case config of
        FileNotFound \<Rightarrow> Inr (webhook_url_from_env env_value)
      | FileUnreadable \<Rightarrow> Inl OSError
      | FileContent raw \<Rightarrow>
          (let content = strip raw in
           if content \<noteq> [] \<and> \<not> startswith content ''#'' then Inr (Some content)
           else Inr (webhook_url_from_env env_value)))"

text \<open>Lines 32 to 36: the module stops the script when no URL was found.\<close>

datatype startup_result =
    Started string
  | Stopped "msg list" "msg list"   \<comment> \<open>\<open>st.error\<close> texts, \<open>st.info\<close> texts, then \<open>st.stop()\<close>\<close>
  | Crashed py_error

definition startup :: "file_read \<Rightarrow> string option \<Rightarrow> startup_result" where
  "startup config env_value =
     (case load_webhook_url config env_value of
        Inl e \<Rightarrow> Crashed e
      | Inr None \<Rightarrow> Stopped [Msg_webhook_url_not_set] [Msg_create_config_file]
      | Inr (Some url) \<Rightarrow>
          if url = [] then Stopped [Msg_webhook_url_not_set] [Msg_create_config_file]
          else Started url)"

text \<open>The resolution as the specification words it: the first line of the file that is
  neither empty nor a comment.\<close>

definition spec_first_url_line :: "string \<Rightarrow> string option" where
  "spec_first_url_line raw =
     (case filter (\<lambda>l. l \<noteq> [] \<and> \<not> startswith l ''#'') (map strip (split_char newline raw)) of
        [] \<Rightarrow> None
      | l # _ \<Rightarrow> Some l)"

section \<open>Chat\<close>

text \<open>A parsed JSON value (the result of \<open>response.json()\<close>); a dictionary is the list of
  its items. Floating-point numbers are outside the model.\<close>

datatype json =
    JNull | JBool bool | JInt int | JStr string | JList "json list"
  | JDict "(string \<times> json) list"

text \<open>A \<open>requests.Response\<close>: \<open>json_body\<close> is what \<open>response.json()\<close> returns, \<open>None\<close> when
  the body is not valid JSON; \<open>response_text\<close> is \<open>response.text\<close>.\<close>

record response =
  status_code :: int
  response_text :: string
  json_body :: "json option"

datatype post_result = NoResponse | Response response

record payload =
  sessionId :: string
  chatInput :: string

text \<open>The network: what \<open>requests.post(url, json=payload)\<close> yields.\<close>

type_synonym webhook = "string \<Rightarrow> payload \<Rightarrow> post_result"

definition send_message_to_llm ::
  "webhook \<Rightarrow> string \<Rightarrow> string \<Rightarrow> string \<Rightarrow> py_error + json" where
  "send_message_to_llm post WEBHOOK_URL session_id message =
     (let payload = \<lparr>sessionId = session_id, chatInput = message\<rparr> in
      case post WEBHOOK_URL payload of
        NoResponse \<Rightarrow> Inl RequestException
      | Response response \<Rightarrow>
          if status_code response = 200 then
            (case json_body response of
               None \<Rightarrow> Inl JSONDecodeError
             | Some (JDict items) \<Rightarrow>
                 (case map_of items ''output'' of
                    None \<Rightarrow> Inl KeyError
                  | Some output \<Rightarrow> Inr output)
             | Some _ \<Rightarrow> Inl TypeError)
          else
            Inr (JStr (''Error: '' @ str_int (status_code response) @ '' - ''
                       @ response_text response)))"

subsection \<open>Session identifiers\<close>

text \<open>\<open>uuid.uuid4()\<close> of the Python standard library: 16 random bytes, read as a 128-bit
  number, with the variant bits set to RFC 4122 and the version bits to 4.\<close>

unbundle bit_operations_syntax

definition uuid4 :: "128 word \<Rightarrow> 128 word" where
  "uuid4 random_bits =
     (let i1 = random_bits AND NOT (push_bit 48 0xc000);
          i2 = i1 OR push_bit 48 0x8000;
          i3 = i2 AND NOT (push_bit 64 0xf000);
          i4 = i3 OR push_bit 76 4
      in i4)"

definition hex_char :: "nat \<Rightarrow> char" where
  "hex_char d = ''0123456789abcdef'' ! d"

text \<open>\<open>'%032x' % n\<close>: the 32 hexadecimal digits of a 128-bit number.\<close>

definition hex32 :: "128 word \<Rightarrow> string" where
  "hex32 n = map (\<lambda>k. hex_char (unat (drop_bit (4 * k) n AND 0xf))) (rev [0..<32])"

text \<open>\<open>str(u)\<close> for a UUID: the digits in groups of 8, 4, 4, 4 and 12.\<close>

definition str_uuid :: "128 word \<Rightarrow> string" where
  "str_uuid n =
     (let hex = hex32 n in
      take 8 hex @ ''-'' @ take 4 (drop 8 hex) @ ''-'' @ take 4 (drop 12 hex) @ ''-''
        @ take 4 (drop 16 hex) @ ''-'' @ drop 20 hex)"

definition generate_session_id :: "128 word \<Rightarrow> string" where
  "generate_session_id random_bits = str_uuid (uuid4 random_bits)"

text \<open>The textual form of a UUID: five groups of 8, 4, 4, 4 and 12 lower-case hexadecimal
  digits, separated by hyphens.\<close>

definition is_uuid_format :: "string \<Rightarrow> bool" where
  "is_uuid_format s =
     (map length (split_char (CHR ''-'') s) = [8, 4, 4, 4, 12]
      \<and> list_all (\<lambda>c. c = CHR ''-'' \<or> c \<in> set ''0123456789abcdef'') s)"

subsection \<open>Session state and the chat view\<close>

record message =
  role :: string
  content :: json

text \<open>\<open>st.session_state\<close>: an attribute that was never set is \<open>None\<close> here.\<close>

record session_state =
  messages :: "message list option"
  session_id :: "string option"

text \<open>Lines 199 to 203 of \<open>main\<close>.\<close>

definition initialize :: "128 word \<Rightarrow> session_state \<Rightarrow> session_state" where
  "initialize random_bits ss =
     (let ss1 = (if messages ss = None then ss\<lparr>messages := Some []\<rparr> else ss);
          ss2 = (if session_id ss1 = None
                 then ss1\<lparr>session_id := Some (generate_session_id random_bits)\<rparr> else ss1)
      in ss2)"


text \<open>The session state of a browser session that has not shown the chat view yet.\<close>

definition empty_session :: session_state where
  "empty_session = \<lparr>messages = None, session_id = None\<rparr>"

section \<open>The commute log store\<close>

text \<open>
  A row of table \<open>commute_logs\<close>. Column \<open>id\<close> is called \<open>row_id\<close> and column \<open>notes\<close> is
  called \<open>notes_col\<close> here. An SQLite \<open>INTEGER\<close> is a signed 64-bit number; the operations
  below raise where SQLite or its Python binding refuses a number outside that range.
  Column \<open>notes\<close> may hold \<open>NULL\<close>.
\<close>

definition in_int64 :: "int \<Rightarrow> bool" where
  "in_int64 i = (- (2 ^ 63) \<le> i \<and> i < 2 ^ 63)"

record commute_log =
  row_id :: int
  travel_date :: string
  travel_time :: string
  route_name :: string
  duration_minutes :: int
  notes_col :: "string option"
  created_at :: string

text \<open>The table: its rows in storage order, and the largest \<open>id\<close> handed out so far
  (\<open>AUTOINCREMENT\<close> keeps it in \<open>sqlite_sequence\<close>).\<close>

record commute_table =
  table_rows :: "commute_log list"
  seq :: int

text \<open>The database file: \<open>None\<close> while table \<open>commute_logs\<close> does not exist. The
  operations below work on the table that \<open>init_commute_db\<close> has made sure exists; failures
  of the disk or of locking are outside the model.\<close>

definition init_commute_db :: "commute_table option \<Rightarrow> commute_table" where
  "init_commute_db db =
     (case db of
        None \<Rightarrow> \<lparr>table_rows = [], seq = 0\<rparr>
      | Some t \<Rightarrow> t)"

subsection \<open>Dates and times\<close>

record date =
  year :: nat
  month :: nat
  day :: nat

record time_of_day =
  hour :: nat
  minute :: nat
  second :: nat
  microsecond :: nat

record datetime =
  date_part :: date
  time_part :: time_of_day

text \<open>\<open>d.isoformat()\<close> for a date.\<close>

definition date_isoformat :: "date \<Rightarrow> string" where
  "date_isoformat d = zero_pad 4 (year d) @ ''-'' @ zero_pad 2 (month d) @ ''-''
                      @ zero_pad 2 (day d)"

text \<open>\<open>t.strftime("%H:%M")\<close>.\<close>

definition strftime_HM :: "time_of_day \<Rightarrow> string" where
  "strftime_HM t = zero_pad 2 (hour t) @ '':'' @ zero_pad 2 (minute t)"

text \<open>\<open>dt.isoformat(timespec="seconds")\<close> for a datetime without time zone.\<close>

definition isoformat_seconds :: "datetime \<Rightarrow> string" where
  "isoformat_seconds dt =
     date_isoformat (date_part dt) @ ''T'' @ zero_pad 2 (hour (time_part dt)) @ '':''
       @ zero_pad 2 (minute (time_part dt)) @ '':'' @ zero_pad 2 (second (time_part dt))"

subsection \<open>Insertion\<close>

text \<open>The largest \<open>id\<close> that the table holds or has ever handed out.\<close>

definition largest_row_id :: "commute_table \<Rightarrow> int" where
  "largest_row_id t = foldr max (map row_id (table_rows t)) (seq t)"

text \<open>\<open>insert_commute_log\<close>; \<open>now\<close> is the value of \<open>datetime.now()\<close> on line 76. The binding
  refuses a duration outside the 64-bit range before the statement runs. \<open>INTEGER PRIMARY KEY
  AUTOINCREMENT\<close> assigns one more than the largest \<open>id\<close> so far, and the statement fails
  when that is already the largest 64-bit number.\<close>

definition insert_commute_log ::
  "datetime \<Rightarrow> string \<Rightarrow> string \<Rightarrow> string \<Rightarrow> int \<Rightarrow> string \<Rightarrow> commute_table
     \<Rightarrow> py_error + commute_table" where
  "insert_commute_log now travel_date_arg travel_time_arg route_name_arg duration_minutes_arg
       notes_arg t =
     (let created_at_val = isoformat_seconds now in
      if \<not> in_int64 duration_minutes_arg then Inl OverflowError
      else if 2 ^ 63 - 1 \<le> largest_row_id t then Inl DatabaseFull
      else
        (let new_id = largest_row_id t + 1;
             new_row = \<lparr>row_id = new_id, travel_date = travel_date_arg,
                        travel_time = travel_time_arg, route_name = route_name_arg,
                        duration_minutes = duration_minutes_arg, notes_col = Some notes_arg,
                        created_at = created_at_val\<rparr>
         in Inr \<lparr>table_rows = table_rows t @ [new_row], seq = new_id\<rparr>))"

subsection \<open>Recent entries\<close>

text \<open>\<open>ORDER BY travel_date DESC, travel_time DESC, id DESC\<close>: text is compared byte by byte
  (SQLite's \<open>BINARY\<close> collation), integers by value.\<close>

definition recent_key :: "commute_log \<Rightarrow> string \<times> string \<times> int" where
  "recent_key r = (travel_date r, travel_time r, row_id r)"

definition order_recent :: "commute_log list \<Rightarrow> commute_log list" where
  "order_recent rows = rev (sort_key recent_key rows)"

text \<open>\<open>LIMIT n\<close>: a negative \<open>n\<close> means no limit in SQLite.\<close>

definition sql_limit :: "int \<Rightarrow> 'a list \<Rightarrow> 'a list" where
  "sql_limit n xs = (if n < 0 then xs else take (nat n) xs)"

text \<open>The rows that the query of \<open>fetch_commute_logs\<close> selects, in the order of the
  result.\<close>

definition select_commute_logs :: "int \<Rightarrow> commute_table \<Rightarrow> commute_log list" where
  "select_commute_logs n t = sql_limit n (order_recent (table_rows t))"

text \<open>\<open>dict(row)\<close> for the six selected columns (column \<open>id\<close> is not selected).\<close>

definition row_to_dict :: "commute_log \<Rightarrow> row_dict" where
  "row_to_dict r =
     [(''travel_date'', PyStr (travel_date r)),
      (''travel_time'', PyStr (travel_time r)),
      (''route_name'', PyStr (route_name r)),
      (''duration_minutes'', PyInt (duration_minutes r)),
      (''notes'', (case notes_col r of None \<Rightarrow> PyNone | Some n \<Rightarrow> PyStr n)),
      (''created_at'', PyStr (created_at r))]"

text \<open>\<open>fetch_commute_logs(limit=50)\<close>: \<open>None\<close> is the call without argument. The binding
  refuses a limit outside the 64-bit range.\<close>

definition fetch_commute_logs ::
  "int option \<Rightarrow> commute_table \<Rightarrow> py_error + row_dict list" where
  "fetch_commute_logs limit t =
     (let n = (case limit of None \<Rightarrow> 50 | Some n \<Rightarrow> n)
      in if \<not> in_int64 n then Inl OverflowError
         else Inr (map row_to_dict (select_commute_logs n t)))"

subsection \<open>Summary by route\<close>

text \<open>A row of the summary query. \<open>avg_minutes\<close> is an SQLite \<open>REAL\<close>, an IEEE double, held
  here as the rational number that the double is.\<close>

record route_summary =
  summary_route_name :: string
  trips :: int
  total_minutes :: int
  avg_minutes :: rat

text \<open>\<open>SUM\<close> over integers: SQLite adds the values one by one in 64-bit arithmetic, and the
  query raises when a sum leaves the 64-bit range. \<open>None\<close> is that failure. The values are
  taken in storage order.\<close>

fun sum_int64 :: "int \<Rightarrow> int list \<Rightarrow> int option" where
  "sum_int64 s [] = Some s"
| "sum_int64 s (x # xs) = (if in_int64 (s + x) then sum_int64 (s + x) xs else None)"

text \<open>
  \<open>ROUND(AVG(duration_minutes), 1)\<close>: SQLite divides the sum by the count and rounds, all in
  IEEE double arithmetic, which is outside this model. The result is taken from the
  environment: \<open>sqlite_real total_val cnt\<close> is the double that the SQLite library at hand returns
  for a group with that sum and count. Only where the arithmetic is exact in every
  implementation is the result written out: when the quotient is a multiple of one half and
  the sum has at most 14 decimal digits, sum, count and quotient are doubles, the division is
  exact, and rounding to one decimal place returns the quotient.
\<close>

definition round_avg :: "(int \<Rightarrow> int \<Rightarrow> rat) \<Rightarrow> int \<Rightarrow> int \<Rightarrow> rat" where
  "round_avg sqlite_real total_val cnt =
     (if \<bar>total_val\<bar> < 10 ^ 14 \<and> cnt dvd 2 * total_val then of_int total_val / of_int cnt
      else sqlite_real total_val cnt)"

text \<open>The aggregates of one group of \<open>GROUP BY route_name\<close>; \<open>None\<close> when \<open>SUM\<close> fails.\<close>

definition summarize_group ::
  "(int \<Rightarrow> int \<Rightarrow> rat) \<Rightarrow> commute_log list \<Rightarrow> string \<Rightarrow> route_summary option" where
  "summarize_group sqlite_real rows name =
     (let grp = filter (\<lambda>r. route_name r = name) rows;
          cnt = int (length grp)
      in case sum_int64 0 (map duration_minutes grp) of
           None \<Rightarrow> None
         | Some total_val \<Rightarrow>
             Some \<lparr>summary_route_name = name, trips = cnt, total_minutes = total_val,
                   avg_minutes = round_avg sqlite_real total_val cnt\<rparr>)"

text \<open>The results of all groups, or \<open>None\<close> when one of them failed.\<close>

fun all_results :: "'a option list \<Rightarrow> 'a list option" where
  "all_results [] = Some []"
| "all_results (None # rs) = None"
| "all_results (Some x # rs) =
     (case all_results rs of None \<Rightarrow> None | Some xs \<Rightarrow> Some (x # xs))"

text \<open>\<open>ORDER BY total_minutes DESC, trips DESC\<close>. SQL leaves the order of rows with equal
  keys open; here they stay in the order of the groups, by ascending route name.\<close>

definition summary_key :: "route_summary \<Rightarrow> int \<times> int" where
  "summary_key s = (- total_minutes s, - trips s)"

definition fetch_commute_summary ::
  "(int \<Rightarrow> int \<Rightarrow> rat) \<Rightarrow> commute_table \<Rightarrow> py_error + route_summary list" where
  "fetch_commute_summary sqlite_real t =
     (let rows = table_rows t;
          names = sort (remdups (map route_name rows))
      in case all_results (map (summarize_group sqlite_real rows) names) of
           None \<Rightarrow> Inl IntegerOverflow
         | Some summary \<Rightarrow> Inr (sort_key summary_key summary))"

section \<open>The two views\<close>

text \<open>What a render puts on the page, in order.\<close>

datatype ui_event =
    StWarning msg
  | StSuccess msg
  | StInfo msg
  | ChatMessage string json
  | LogsTable "row_dict list"
  | DownloadButton string
  | SummaryTable "route_summary list"

text \<open>The values of the form widgets, and whether the form was submitted.\<close>

record form_input =
  form_travel_date :: date
  form_travel_time :: time_of_day
  form_route_name :: string
  form_duration_minutes :: int
  form_notes :: string
  submitted :: bool

text \<open>Lines 153 to 164 of \<open>render_commute_tracker\<close>, the operation that the specification
  calls \<open>submit_entry\<close>: the new table and the message shown, or the exception of the
  insertion.\<close>

definition submit_entry ::
  "datetime \<Rightarrow> form_input \<Rightarrow> commute_table \<Rightarrow> py_error + (commute_table \<times> ui_event list)" where
  "submit_entry now form t =
     (if submitted form then
        (if strip (form_route_name form) = [] then Inr (t, [StWarning Msg_enter_route_name])
         else
           (case insert_commute_log now
                   (date_isoformat (form_travel_date form))
                   (strftime_HM (form_travel_time form))
                   (strip (form_route_name form))
                   (form_duration_minutes form)
                   (strip (form_notes form)) t of
              Inl e \<Rightarrow> Inl e
            | Inr t' \<Rightarrow> Inr (t', [StSuccess Msg_saved])))
      else Inr (t, []))"

text \<open>One render of the commute view: the table afterwards, what was shown, and the exception
  that ended the render, if any. Each statement is committed when it has run, so the table
  keeps an inserted row when a later query raises.\<close>

definition render_commute_tracker ::
  "datetime \<Rightarrow> (int \<Rightarrow> int \<Rightarrow> rat) \<Rightarrow> form_input \<Rightarrow> commute_table option
     \<Rightarrow> commute_table \<times> ui_event list \<times> py_error option" where
  "render_commute_tracker now sqlite_real form db =
     (let t0 = init_commute_db db in
      case submit_entry now form t0 of
        Inl e \<Rightarrow> (t0, [], Some e)
      | Inr (t1, ui1) \<Rightarrow>
          (case fetch_commute_logs (Some 50) t1 of
             Inl e \<Rightarrow> (t1, ui1, Some e)
           | Inr logs \<Rightarrow>
               (let ui2 = ui1 @ (if logs \<noteq> []
                                 then [LogsTable logs, DownloadButton (build_csv logs)]
                                 else [StInfo Msg_no_logs])
                in case fetch_commute_summary sqlite_real t1 of
                     Inl e \<Rightarrow> (t1, ui2, Some e)
                   | Inr summary \<Rightarrow>
                       (t1,
                        ui2 @ (if summary \<noteq> [] then [SummaryTable summary]
                               else [StInfo Msg_no_summary]),
                        None))))"

text \<open>Everything outside the program that one run of \<open>main\<close> reads.\<close>

record environment =
  post :: webhook
  WEBHOOK_URL :: string
  urandom :: "128 word"
  now :: datetime
  sqlite_real :: "int \<Rightarrow> int \<Rightarrow> rat"

record ui_input =
  app_mode :: string
  user_input :: "string option"
  form :: form_input

record app_state =
  session :: session_state
  database :: "commute_table option"

text \<open>One run of \<open>main\<close>: the new state, what was rendered, and the exception that ended
  the run, if any. The session state keeps what was appended before an exception.\<close>

definition main ::
  "environment \<Rightarrow> ui_input \<Rightarrow> app_state \<Rightarrow> app_state \<times> ui_event list \<times> py_error option" where
  "main env inp st =
     (if app_mode inp = ''Commute Tracker'' then
        (let (t, ui, err) =
               render_commute_tracker (now env) (sqlite_real env) (form inp) (database st)
         in (st\<lparr>database := Some t\<rparr>, ui, err))
      else
        (let ss = initialize (urandom env) (session st) in
         case (messages ss, session_id ss) of
           (Some history, Some sid) \<Rightarrow>
             (let shown = map (\<lambda>m. ChatMessage (role m) (content m)) history in
              case user_input inp of
                None \<Rightarrow> (st\<lparr>session := ss\<rparr>, shown, None)
              | Some user_text \<Rightarrow>
                  if user_text = [] then (st\<lparr>session := ss\<rparr>, shown, None)
                  else
                    (let history1 = history @ [\<lparr>role = ''user'', content = JStr user_text\<rparr>];
                         shown1 = shown @ [ChatMessage ''user'' (JStr user_text)]
                     in case send_message_to_llm (post env) (WEBHOOK_URL env) sid user_text of
                          Inl e \<Rightarrow> (st\<lparr>session := ss\<lparr>messages := Some history1\<rparr>\<rparr>, shown1, Some e)
                        | Inr llm_response \<Rightarrow>
                            (st\<lparr>session := ss\<lparr>messages := Some
                                  (history1 @ [\<lparr>role = ''assistant'', content = llm_response\<rparr>])\<rparr>\<rparr>,
                             shown1 @ [ChatMessage ''assistant'' llm_response], None)))
         | _ \<Rightarrow> (st\<lparr>session := ss\<rparr>, [], Some AttributeError)))"

text \<open>The message sequence of a state; empty while the attribute is not set.\<close>

definition transcript :: "app_state \<Rightarrow> message list" where
  "transcript st = (case messages (session st) of None \<Rightarrow> [] | Some history \<Rightarrow> history)"

section \<open>Auxiliary notions\<close>

text \<open>The six bits of a version 4 UUID that are fixed: the variant in bits 62 and 63, the
  version in bits 76 to 79. The other 122 bits are random.\<close>

definition uuid_fixed_bits :: "128 word" where
  "uuid_fixed_bits = push_bit 48 0xc000 OR push_bit 64 0xf000"

text \<open>The combined effect of the two \<open>replace\<close> calls of \<open>build_csv\<close> on one field.\<close>

definition sanitize :: "string \<Rightarrow> string" where
  "sanitize s = map (\<lambda>c. if c = newline \<or> c = comma then space else c) s"

section \<open>Concrete inputs\<close>

text \<open>A complete row dictionary whose notes hold a comma and a newline, and one that lacks
  four of the six columns.\<close>

definition example_entry :: row_dict where
  "example_entry =
     [(''travel_date'', PyStr ''2024-01-02''), (''travel_time'', PyStr ''08:30''),
      (''route_name'', PyStr ''Home''), (''duration_minutes'', PyInt 30),
      (''notes'', PyStr (''a,b'' @ [newline] @ ''c'')),
      (''created_at'', PyStr ''2024-01-02T08:31:00'')]"

definition partial_entry :: row_dict where
  "partial_entry = [(''route_name'', PyStr ''Home''), (''duration_minutes'', PyInt 30)]"

text \<open>A fresh application state, a clock reading, three stub webhooks (HTTP 500 with body
  \<open>internal error\<close>; HTTP 200 with an empty JSON object; HTTP 200 with an \<open>output\<close> field),
  a stand-in for the arithmetic of the SQLite library (rounding half up to tenths, exactly),
  an environment around a stub, a chat submission of \<open>hi\<close>, and a session that already
  has an identifier and a history.\<close>

definition fresh_state :: app_state where
  "fresh_state = \<lparr>session = empty_session, database = None\<rparr>"

definition noon :: datetime where
  "noon = \<lparr>date_part = \<lparr>year = 2024, month = 1, day = 2\<rparr>,
           time_part = \<lparr>hour = 12, minute = 0, second = 7, microsecond = 123456\<rparr>\<rparr>"

definition stub_500 :: webhook where
  "stub_500 url p = Response \<lparr>status_code = 500, response_text = ''internal error'', json_body = None\<rparr>"

definition stub_200_empty :: webhook where
  "stub_200_empty url p = Response \<lparr>status_code = 200, response_text = ''{}'', json_body = Some (JDict [])\<rparr>"

definition stub_200_hello :: webhook where
  "stub_200_hello url p =
     Response \<lparr>status_code = 200, response_text = ''{\"output\": \"hello\"}'',
               json_body = Some (JDict [(''output'', JStr ''hello'')])\<rparr>"

definition half_up_tenths :: "int \<Rightarrow> int \<Rightarrow> rat" where
  "half_up_tenths total_val cnt =
     of_int \<lfloor>of_int total_val * 10 / of_int cnt + (1 / 2 :: rat)\<rfloor> / 10"

definition env_of :: "webhook \<Rightarrow> environment" where
  "env_of w = \<lparr>post = w, WEBHOOK_URL = ''http://localhost/hook'', urandom = 0, now = noon,
              sqlite_real = half_up_tenths\<rparr>"

definition blank_form :: form_input where
  "blank_form = \<lparr>form_travel_date = \<lparr>year = 2024, month = 1, day = 2\<rparr>,
                 form_travel_time = \<lparr>hour = 8, minute = 30, second = 0, microsecond = 0\<rparr>,
                 form_route_name = [], form_duration_minutes = 30, form_notes = [],
                 submitted = False\<rparr>"

definition say_hi :: ui_input where
  "say_hi = \<lparr>app_mode = ''LLM Chat'', user_input = Some ''hi'', form = blank_form\<rparr>"

definition returning_session :: session_state where
  "returning_session =
     \<lparr>messages = Some [\<lparr>role = ''user'', content = JStr ''hello''\<rparr>,
                        \<lparr>role = ''assistant'', content = JStr ''hi there''\<rparr>],
      session_id = Some ''6f1c2a52-58a4-4c0e-9b53-0d2f6f1f7a11''\<rparr>"

text \<open>A stored row with the given id, date, time, route and duration; the table of the
  entries (RouteA, 30), (RouteB, 20), (RouteA, 50); and the same rows laid out in another
  order.\<close>

definition mk_log :: "int \<Rightarrow> string \<Rightarrow> string \<Rightarrow> string \<Rightarrow> int \<Rightarrow> commute_log" where
  "mk_log i d tm r m = \<lparr>row_id = i, travel_date = d, travel_time = tm, route_name = r,
       duration_minutes = m, notes_col = Some [], created_at = d @ ''T'' @ tm @ '':00''\<rparr>"

definition route_table :: commute_table where
  "route_table =
     \<lparr>table_rows = [mk_log 1 ''2024-01-02'' ''08:30'' ''RouteA'' 30,
                    mk_log 2 ''2024-01-03'' ''08:30'' ''RouteB'' 20,
                    mk_log 3 ''2024-01-03'' ''08:30'' ''RouteA'' 50],
      seq = 3\<rparr>"

definition route_table_shuffled :: commute_table where
  "route_table_shuffled =
     \<lparr>table_rows = [mk_log 3 ''2024-01-03'' ''08:30'' ''RouteA'' 50,
                    mk_log 1 ''2024-01-02'' ''08:30'' ''RouteA'' 30,
                    mk_log 2 ''2024-01-03'' ''08:30'' ''RouteB'' 20],
      seq = 3\<rparr>"


definition full_table :: commute_table where
  "full_table =
     \<lparr>table_rows = [mk_log (2 ^ 63 - 1) ''2024-01-02'' ''08:30'' ''RouteA'' 30],
      seq = 2 ^ 63 - 1\<rparr>"

text \<open>A submission whose route name is a space, a tab and the ideographic space U+3000, a
  valid submission with surrounding whitespace in route name and notes, and a configuration
  file that starts with a comment line.\<close>

definition blank_submission :: form_input where
  "blank_submission =
     blank_form\<lparr>form_route_name := '' '' @ [CHR 0x09] @ [CHR 0xE3, CHR 0x80, CHR 0x80],
                 submitted := True\<rparr>"

definition home_submission :: form_input where
  "home_submission =
     blank_form\<lparr>form_route_name := '' Home -> Office '', form_duration_minutes := 42,
                 form_notes := ''rain '' @ [newline], submitted := True\<rparr>"

definition commented_config :: string where
  "commented_config = ''# webhook'' @ [newline] @ ''http://example.com/hook''"

section \<open>Properties of the CSV export\<close>

lemma csv_loop_eq: "csv_loop lines logs = lines @ map (\<lambda>e. join [comma] (csv_row e)) logs"
  by (induction logs arbitrary: lines) auto

lemma split_char_nosep: "sep \<notin> set x \<Longrightarrow> split_char sep x = [x]"
  by (induction x) (auto split: list.splits)

lemma split_char_append:
  "sep \<notin> set x \<Longrightarrow> split_char sep (x @ sep # r) = x # split_char sep r"
  by (induction x) (auto split: list.splits)

lemma split_char_join:
  "xs \<noteq> [] \<Longrightarrow> \<forall>x\<in>set xs. sep \<notin> set x \<Longrightarrow> split_char sep (join [sep] xs) = xs"
  by (induction xs rule: induct_list012) (auto simp: split_char_nosep split_char_append)

lemma replace_sanitize:
  "replace_char comma space (replace_char newline space s) = sanitize s"
  by (auto simp: sanitize_def replace_char_def newline_def comma_def space_def)

lemma sanitize_no_comma: "comma \<notin> set (sanitize s)"
  by (auto simp: sanitize_def comma_def space_def)

lemma sanitize_no_newline: "newline \<notin> set (sanitize s)"
  by (auto simp: sanitize_def newline_def space_def)

lemma csv_row_eq: "csv_row e = map (\<lambda>col. sanitize (py_str (dict_get e col))) header"
  by (simp add: csv_row_def replace_sanitize)

lemma set_join_subset: "set (join sep xs) \<subseteq> set sep \<union> \<Union> (set ` set xs)"
  by (induction sep xs rule: join.induct) auto

lemma csv_line_no_newline: "newline \<notin> set (join [comma] (csv_row e))"
proof
  assume "newline \<in> set (join [comma] (csv_row e))"
  then have "newline \<in> set [comma] \<union> \<Union> (set ` set (csv_row e))"
    using set_join_subset by blast
  then show False
    using sanitize_no_newline by (auto simp: csv_row_eq newline_def comma_def)
qed

lemma header_no_newline: "newline \<notin> set (join [comma] header)"
  by (simp add: header_def newline_def comma_def)

lemma count_join:
  "\<forall>x\<in>set xs. c \<notin> set x \<Longrightarrow> xs \<noteq> [] \<Longrightarrow> length (filter ((=) c) (join [c] xs)) = length xs - 1"
  by (induction xs rule: induct_list012) (auto simp: filter_empty_conv)

lemma length_csv_row: "length (csv_row e) = 6"
  by (simp add: csv_row_def header_def)

lemma lines_build_csv:
  "split_char newline (build_csv logs)
     = join [comma] header # map (\<lambda>e. join [comma] (csv_row e)) logs"
  unfolding build_csv_def csv_loop_eq append_Cons append_Nil
  by (rule split_char_join) (auto simp: csv_line_no_newline header_no_newline)

lemma fields_csv_line: "split_char comma (join [comma] (csv_row e)) = csv_row e"
  by (rule split_char_join) (auto simp: csv_row_eq sanitize_no_comma header_def)

lemma commas_csv_line: "length (filter ((=) comma) (join [comma] (csv_row e))) = 5"
proof -
  have "length (filter ((=) comma) (join [comma] (csv_row e))) = length (csv_row e) - 1"
    by (rule count_join) (auto simp: csv_row_eq sanitize_no_comma header_def)
  then show ?thesis by (simp add: length_csv_row)
qed

lemma commas_header: "length (filter ((=) comma) (join [comma] header)) = 5"
  by (simp add: header_def comma_def)

lemma fields_header: "split_char comma (join [comma] header) = header"
  by (simp add: header_def comma_def)

lemma line_build_csv:
  "i < length logs \<Longrightarrow>
   split_char newline (build_csv logs) ! Suc i = join [comma] (csv_row (logs ! i))"
  by (simp add: lines_build_csv)

lemma field_build_csv:
  assumes "i < length logs" and "j < length header"
  shows "split_char comma (split_char newline (build_csv logs) ! Suc i) ! j
         = sanitize (py_str (dict_get (logs ! i) (header ! j)))"
proof -
  have "split_char comma (split_char newline (build_csv logs) ! Suc i) = csv_row (logs ! i)"
    using assms(1) by (simp only: line_build_csv fields_csv_line)
  then show ?thesis
    using assms(2) by (simp add: csv_row_eq)
qed

text \<open>
  Claim C4. Every field of every data line of \<open>build_csv\<close> is the text of the value with
  each newline and each comma replaced by one space, and the line is these fields joined by
  commas, with no quoting or escaping. For an entry whose notes are \<open>a,b\<close>, a newline and
  \<open>c\<close>, the notes field of the output is \<open>a b c\<close>.
\<close>

theorem build_csv_sanitizes_fields:
  "(i < length logs \<longrightarrow>
      split_char newline (build_csv logs) ! Suc i = join [comma] (csv_row (logs ! i))
      \<and> (j < length header \<longrightarrow>
           split_char comma (split_char newline (build_csv logs) ! Suc i) ! j
             = map (\<lambda>c. if c = newline \<or> c = comma then space else c)
                   (py_str (dict_get (logs ! i) (header ! j)))))
   \<and> split_char comma (split_char newline (build_csv [example_entry]) ! 1) ! 4 = ''a b c''
   \<and> build_csv [example_entry]
       = ''travel_date,travel_time,route_name,duration_minutes,notes,created_at''
         @ [newline] @ ''2024-01-02,08:30,Home,30,a b c,2024-01-02T08:31:00''"
proof -
  have gen: "split_char comma (split_char newline (build_csv logs) ! Suc i) ! j
             = map (\<lambda>c. if c = newline \<or> c = comma then space else c)
                   (py_str (dict_get (logs ! i) (header ! j)))"
    if "i < length logs" "j < length header" for logs i j
    using that by (simp add: field_build_csv sanitize_def)
  have line: "split_char newline (build_csv logs) ! Suc i = join [comma] (csv_row (logs ! i))"
    if "i < length logs" for logs i
    using that by (simp add: lines_build_csv)
  have ex: "build_csv [example_entry]
       = ''travel_date,travel_time,route_name,duration_minutes,notes,created_at''
         @ [newline] @ ''2024-01-02,08:30,Home,30,a b c,2024-01-02T08:31:00''"
    by (simp add: build_csv_def csv_row_def header_def example_entry_def dict_get_def
        replace_char_def newline_def comma_def space_def str_int_def digits10.simps digit_char_def)
  have "split_char comma (split_char newline (build_csv [example_entry]) ! 1) ! 4
        = map (\<lambda>c. if c = newline \<or> c = comma then space else c)
                   (py_str (dict_get ([example_entry] ! 0) (header ! 4)))"
    using gen[of 0 "[example_entry]" 4] by (simp add: header_def)
  also have "\<dots> = ''a b c''"
    by (simp add: header_def example_entry_def dict_get_def newline_def comma_def space_def)
  finally show ?thesis using gen line ex by blast
qed

theorem build_csv_sanitizes_fields_witness:
  "(1::nat) < length [partial_entry, example_entry] \<and> 4 < length header
   \<and> split_char comma (split_char newline (build_csv [partial_entry, example_entry]) ! Suc 1) ! 4
     = ''a b c''
   \<and> split_char newline (build_csv [partial_entry, example_entry]) ! Suc 1
     = ''2024-01-02,08:30,Home,30,a b c,2024-01-02T08:31:00''"
proof -
  let ?logs = "[partial_entry, example_entry]"
  have i: "(1::nat) < length ?logs"
    by simp
  have j: "4 < length header"
    by (simp add: header_def)
  have row: "join [comma] (csv_row (?logs ! 1))
             = ''2024-01-02,08:30,Home,30,a b c,2024-01-02T08:31:00''"
    by (simp add: csv_row_def header_def example_entry_def dict_get_def replace_char_def
        newline_def comma_def space_def str_int_def digits10.simps digit_char_def)
  have field: "map (\<lambda>c. if c = newline \<or> c = comma then space else c)
                 (py_str (dict_get (?logs ! 1) (header ! 4)))
               = ''a b c''"
    by (simp add: header_def example_entry_def dict_get_def newline_def comma_def space_def)
  note inst = build_csv_sanitizes_fields [of 1 ?logs 4, THEN conjunct1, rule_format, OF i]
  have A: "split_char newline (build_csv ?logs) ! Suc 1 = join [comma] (csv_row (?logs ! 1))"
    using inst by (rule conjunct1)
  have B: "split_char comma (split_char newline (build_csv ?logs) ! Suc 1) ! 4
           = map (\<lambda>c. if c = newline \<or> c = comma then space else c)
               (py_str (dict_get (?logs ! 1) (header ! 4)))"
    using inst [THEN conjunct2, rule_format, OF j] .
  from A row have A': "split_char newline (build_csv ?logs) ! Suc 1
       = ''2024-01-02,08:30,Home,30,a b c,2024-01-02T08:31:00''"
    by (rule trans)
  from B field have B': "split_char comma (split_char newline (build_csv ?logs) ! Suc 1) ! 4
           = ''a b c''"
    by (rule trans)
  from i j A' B' show ?thesis
    by (intro conjI)
qed

text \<open>
  Claim C10. For every list of row dictionaries the text of \<open>build_csv\<close> has one line per
  row plus the header line, every line holds exactly 5 commas (6 fields), and a column that a
  row dictionary lacks is written as the empty string; \<open>build_csv\<close> has no failing case.
\<close>

theorem build_csv_shape:
  "length (split_char newline (build_csv logs)) = length logs + 1
   \<and> (\<forall>l \<in> set (split_char newline (build_csv logs)).
         length (filter ((=) comma) l) = 5 \<and> length (split_char comma l) = 6)
   \<and> (\<forall>i < length logs. \<forall>j < length header.
         map_of (logs ! i) (header ! j) = None \<longrightarrow>
         split_char comma (split_char newline (build_csv logs) ! Suc i) ! j = [])"
proof (intro conjI ballI allI impI)
  show "length (split_char newline (build_csv logs)) = length logs + 1"
    by (simp add: lines_build_csv)
next
  fix l assume "l \<in> set (split_char newline (build_csv logs))"
  then consider "l = join [comma] header" | e where "l = join [comma] (csv_row e)"
    by (auto simp: lines_build_csv)
  then have "length (filter ((=) comma) l) = 5 \<and> length (split_char comma l) = 6"
  proof cases
    case 1
    then show ?thesis by (simp add: commas_header fields_header) (simp add: header_def)
  next
    case 2
    then show ?thesis by (simp add: commas_csv_line fields_csv_line length_csv_row)
  qed
  then show "length (filter ((=) comma) l) = 5" and "length (split_char comma l) = 6"
    by simp_all
next
  fix i j
  assume "i < length logs" "j < length header" "map_of (logs ! i) (header ! j) = None"
  then show "split_char comma (split_char newline (build_csv logs) ! Suc i) ! j = []"
    by (simp add: field_build_csv sanitize_def dict_get_def)
qed

theorem build_csv_shape_witness:
  "length (split_char newline (build_csv [partial_entry, example_entry])) = 3
   \<and> length (filter ((=) comma) (split_char newline (build_csv [partial_entry, example_entry]) ! 1)) = 5
   \<and> split_char newline (build_csv [partial_entry, example_entry]) ! 1 = '',,Home,30,,''
   \<and> split_char comma (split_char newline (build_csv [partial_entry, example_entry]) ! 1) ! 0 = []"
proof -
  let ?out = "build_csv [partial_entry, example_entry]"
  have lines: "split_char newline ?out
     = [''travel_date,travel_time,route_name,duration_minutes,notes,created_at'',
        '',,Home,30,,'', ''2024-01-02,08:30,Home,30,a b c,2024-01-02T08:31:00'']"
    by (simp add: build_csv_def csv_row_def header_def example_entry_def partial_entry_def
        dict_get_def replace_char_def newline_def comma_def space_def str_int_def
        digits10.simps digit_char_def)
  have missing: "map_of ([partial_entry, example_entry] ! 0) (header ! 0) = None"
    by (simp add: partial_entry_def header_def)
  have mem: "split_char newline ?out ! 1 \<in> set (split_char newline ?out)"
    by (simp add: lines)
  from build_csv_shape [of "[partial_entry, example_entry]"] mem missing
  have "length (split_char newline ?out) = 3"
    and "length (filter ((=) comma) (split_char newline ?out ! 1)) = 5"
    and "split_char comma (split_char newline ?out ! Suc 0) ! 0 = []"
    by (auto simp: header_def)
  then show ?thesis by (simp add: lines)
qed

section \<open>Properties of the chat view\<close>

subsection \<open>Session identifiers have the UUID format\<close>

lemma nibble_mask: "(0xf :: 128 word) = mask 4"
  by (simp add: mask_eq_exp_minus_1)

lemma unat_nibble: "unat ((w :: 128 word) AND 0xf) < 16"
proof -
  have "unat (w AND mask 4) < 2 ^ 4"
    by (simp only: flip: take_bit_eq_mask)
       (simp only: unsigned_take_bit_eq take_bit_nat_less_exp)
  moreover have "(2::nat) ^ 4 = 16"
    by simp
  ultimately show ?thesis
    by (simp only: nibble_mask)
qed

lemma hex_char_is_hex: "d < 16 \<Longrightarrow> hex_char d \<in> set ''0123456789abcdef''"
proof -
  assume "d < 16"
  then have "d < length ''0123456789abcdef''" by simp
  then have "''0123456789abcdef'' ! d \<in> set ''0123456789abcdef''"
    by (rule nth_mem)
  then show ?thesis by (simp only: hex_char_def)
qed

lemma length_hex32: "length (hex32 n) = 32"
  by (simp add: hex32_def)

lemma set_hex32: "set (hex32 n) \<subseteq> set ''0123456789abcdef''"
proof
  fix c assume "c \<in> set (hex32 n)"
  then obtain k where "c = hex_char (unat (drop_bit (4 * k) n AND 0xf))"
    unfolding hex32_def by (auto simp only: set_map image_iff)
  then show "c \<in> set ''0123456789abcdef''"
    using hex_char_is_hex [OF unat_nibble] by (simp only:)
qed

lemma hyphen_not_hex: "CHR ''-'' \<notin> set ''0123456789abcdef''"
  by simp

lemma hyphen_notin_hex32: "CHR ''-'' \<notin> set (hex32 n)"
  using set_hex32 [of n] hyphen_not_hex by blast

lemma hyphen_notin_take: "CHR ''-'' \<notin> set (take k (drop m (hex32 n)))"
  using hyphen_notin_hex32 [of n] by (meson in_set_dropD in_set_takeD)

lemma hyphen_notin_take0: "CHR ''-'' \<notin> set (take k (hex32 n))"
  using hyphen_notin_hex32 [of n] by (meson in_set_takeD)

lemma hyphen_notin_drop: "CHR ''-'' \<notin> set (drop m (hex32 n))"
  using hyphen_notin_hex32 [of n] by (meson in_set_dropD)

lemma split_str_uuid:
  "split_char (CHR ''-'') (str_uuid n)
     = [take 8 (hex32 n), take 4 (drop 8 (hex32 n)), take 4 (drop 12 (hex32 n)),
        take 4 (drop 16 (hex32 n)), drop 20 (hex32 n)]"
  by (simp add: str_uuid_def Let_def split_char_append split_char_nosep
      hyphen_notin_take hyphen_notin_take0 hyphen_notin_drop)

lemma chars_str_uuid:
  "list_all (\<lambda>c. c = CHR ''-'' \<or> c \<in> set ''0123456789abcdef'') (str_uuid n)"
proof -
  have "set (str_uuid n) \<subseteq> insert (CHR ''-'') (set (hex32 n))"
    by (auto simp: str_uuid_def Let_def dest: in_set_takeD in_set_dropD)
  then show ?thesis
    using set_hex32 [of n] unfolding list_all_iff by blast
qed

lemma str_uuid_format: "is_uuid_format (str_uuid n)"
proof -
  have "map length (split_char (CHR ''-'') (str_uuid n)) = [8, 4, 4, 4, 12]"
    by (simp add: split_str_uuid length_hex32)
  then show ?thesis
    unfolding is_uuid_format_def using chars_str_uuid by (intro conjI)
qed

lemma generate_session_id_format: "is_uuid_format (generate_session_id r)"
  by (simp only: generate_session_id_def str_uuid_format)

subsection \<open>Session identifiers depend on all random bits\<close>

lemma version_mask: "(push_bit 64 0xf000 :: 128 word) = push_bit 76 (mask 4)"
  by (simp add: mask_eq_exp_minus_1 push_bit_eq_mult)
lemma variant_mask: "(push_bit 48 0xc000 :: 128 word) = push_bit 62 (mask 2)"
  by (simp add: mask_eq_exp_minus_1 push_bit_eq_mult)
lemma variant_bit: "(push_bit 48 0x8000 :: 128 word) = push_bit 63 1"
  by (simp add: push_bit_eq_mult)
lemma version_bit: "(push_bit 76 4 :: 128 word) = push_bit 78 1"
  by (simp add: push_bit_eq_mult)

lemma bit_set_field:
  fixes x :: "'a::len word"
  shows "bit ((x AND NOT (push_bit k (mask w))) OR push_bit j 1) i \<longleftrightarrow>
         i < LENGTH('a) \<and> (i = j \<or> (\<not> (k \<le> i \<and> i < k + w) \<and> bit x i))"
  by (auto simp: bit_simps dest: bit_imp_le_length)

lemma bit_not_field:
  fixes x :: "'a::len word"
  shows "bit (NOT (push_bit k (mask w) OR push_bit k' (mask w')) :: 'a word) i \<longleftrightarrow>
         i < LENGTH('a) \<and> \<not> (k \<le> i \<and> i < k + w) \<and> \<not> (k' \<le> i \<and> i < k' + w')"
  by (auto simp: bit_simps)

lemma bit_uuid4:
  "bit (uuid4 r) i \<longleftrightarrow>
     i < 128 \<and> (i = 78 \<or> (\<not> (76 \<le> i \<and> i < 80) \<and> (i = 63 \<or> (\<not> (62 \<le> i \<and> i < 64) \<and> bit r i))))"
proof -
  have eq: "uuid4 r = ((r AND NOT (push_bit 62 (mask 2))) OR push_bit 63 1)
                    AND NOT (push_bit 76 (mask 4)) OR push_bit 78 1"
    by (simp only: uuid4_def Let_def version_mask variant_mask variant_bit version_bit)
  show ?thesis
    unfolding eq bit_set_field by auto
qed

lemma bit_not_fixed:
  "bit (NOT uuid_fixed_bits) i \<longleftrightarrow> i < 128 \<and> \<not> (62 \<le> i \<and> i < 64) \<and> \<not> (76 \<le> i \<and> i < 80)"
proof -
  have eq: "uuid_fixed_bits = push_bit 62 (mask 2) OR push_bit 76 (mask 4)"
    by (simp only: uuid_fixed_bits_def version_mask variant_mask)
  show ?thesis
    unfolding eq bit_not_field by auto
qed

lemma uuid4_eq_iff:
  "uuid4 r = uuid4 r' \<longleftrightarrow> r AND NOT uuid_fixed_bits = r' AND NOT uuid_fixed_bits"
proof
  assume eq: "uuid4 r = uuid4 r'"
  show "r AND NOT uuid_fixed_bits = r' AND NOT uuid_fixed_bits"
  proof (rule bit_eqI)
    fix i
    from eq have "bit (uuid4 r) i = bit (uuid4 r') i"
      by simp
    then show "bit (r AND NOT uuid_fixed_bits) i = bit (r' AND NOT uuid_fixed_bits) i"
      unfolding bit_uuid4 bit_and_iff bit_not_fixed by auto
  qed
next
  assume eq: "r AND NOT uuid_fixed_bits = r' AND NOT uuid_fixed_bits"
  show "uuid4 r = uuid4 r'"
  proof (rule bit_eqI)
    fix i
    from eq have "bit (r AND NOT uuid_fixed_bits) i = bit (r' AND NOT uuid_fixed_bits) i"
      by simp
    then show "bit (uuid4 r) i = bit (uuid4 r') i"
      unfolding bit_uuid4 bit_and_iff bit_not_fixed by auto
  qed
qed


lemma hex_char_inj:
  assumes "d < 16" and "d' < 16" and "hex_char d = hex_char d'"
  shows "d = d'"
proof -
  have "distinct ''0123456789abcdef''"
    by simp
  moreover have "d < length ''0123456789abcdef''" and "d' < length ''0123456789abcdef''"
    using assms(1,2) by simp_all
  ultimately show ?thesis
    using assms(3) unfolding hex_char_def by (simp only: nth_eq_iff_index_eq)
qed

lemma hex32_nth:
  "k < 32 \<Longrightarrow> hex32 n ! k = hex_char (unat (drop_bit (4 * (31 - k)) n AND 0xf))"
  by (simp add: hex32_def rev_nth)

lemma hex32_inj:
  assumes "hex32 n = hex32 m"
  shows "n = m"
proof (rule bit_eqI)
  fix i
  show "bit n i = bit m i"
  proof (cases "i < 128")
    case False
    then show ?thesis
      by (auto dest: bit_imp_le_length)
  next
    case True
    define k where "k = 31 - i div 4"
    have k: "k < 32" and ik: "4 * (31 - k) = 4 * (i div 4)"
      using True by (simp_all add: k_def)
    from assms have "hex32 n ! k = hex32 m ! k"
      by simp
    then have "hex_char (unat (drop_bit (4 * (i div 4)) n AND 0xf))
             = hex_char (unat (drop_bit (4 * (i div 4)) m AND 0xf))"
      using k by (simp only: hex32_nth ik)
    then have "unat (drop_bit (4 * (i div 4)) n AND 0xf)
             = unat (drop_bit (4 * (i div 4)) m AND 0xf)"
      by (rule hex_char_inj [OF unat_nibble unat_nibble])
    then have "drop_bit (4 * (i div 4)) n AND mask 4 = drop_bit (4 * (i div 4)) m AND mask 4"
      by (simp only: nibble_mask word_unat_eq_iff)
    then have "bit (drop_bit (4 * (i div 4)) n AND mask 4) (i mod 4)
             = bit (drop_bit (4 * (i div 4)) m AND mask 4) (i mod 4)"
      by simp
    moreover have "i mod 4 < 128"
      by arith
    ultimately show ?thesis
      by (simp add: bit_simps)
  qed
qed

lemma take_drop_take:
  "a \<le> b \<Longrightarrow> take a xs @ drop a (take b xs) = take b xs"
proof -
  assume "a \<le> b"
  then have "take a (take b xs) = take a xs"
    by (simp add: min_def)
  then have "take a xs @ drop a (take b xs) = take a (take b xs) @ drop a (take b xs)"
    by simp
  then show ?thesis
    by (simp only: append_take_drop_id)
qed

lemma str_uuid_hex: "filter (\<lambda>c. c \<noteq> CHR ''-'') (str_uuid n) = hex32 n"
proof -
  have keep: "filter (\<lambda>c. c \<noteq> CHR ''-'') xs = xs" if "set xs \<subseteq> set (hex32 n)" for xs
    using that hyphen_notin_hex32 [of n] by (auto simp: filter_id_conv)
  have "filter (\<lambda>c. c \<noteq> CHR ''-'') (str_uuid n)
        = take 8 (hex32 n) @ take 4 (drop 8 (hex32 n)) @ take 4 (drop 12 (hex32 n))
          @ take 4 (drop 16 (hex32 n)) @ drop 20 (hex32 n)"
    by (simp add: str_uuid_def Let_def keep set_take_subset set_drop_subset
        order_trans [OF set_take_subset set_drop_subset])
  also have "\<dots> = take 8 (hex32 n) @ drop 8 (take 12 (hex32 n)) @ drop 12 (take 16 (hex32 n))
          @ drop 16 (take 20 (hex32 n)) @ drop 20 (hex32 n)"
    by (simp add: take_drop)
  also have "\<dots> = take 12 (hex32 n) @ drop 12 (take 16 (hex32 n))
          @ drop 16 (take 20 (hex32 n)) @ drop 20 (hex32 n)"
    by (simp only: take_drop_take append_assoc [symmetric]) 
  also have "\<dots> = take 16 (hex32 n) @ drop 16 (take 20 (hex32 n)) @ drop 20 (hex32 n)"
    by (simp only: take_drop_take append_assoc [symmetric]) 
  also have "\<dots> = take 20 (hex32 n) @ drop 20 (hex32 n)"
    by (simp only: take_drop_take append_assoc [symmetric]) 
  also have "\<dots> = hex32 n"
    by (rule append_take_drop_id)
  finally show ?thesis .
qed

lemma generate_session_id_eq_iff:
  "generate_session_id r = generate_session_id r'
     \<longleftrightarrow> r AND NOT uuid_fixed_bits = r' AND NOT uuid_fixed_bits"
proof -
  have "str_uuid (uuid4 r) = str_uuid (uuid4 r') \<longleftrightarrow> uuid4 r = uuid4 r'"
  proof
    assume "str_uuid (uuid4 r) = str_uuid (uuid4 r')"
    then have "hex32 (uuid4 r) = hex32 (uuid4 r')"
      using str_uuid_hex by metis
    then show "uuid4 r = uuid4 r'"
      by (rule hex32_inj)
  qed simp
  then show ?thesis
    by (simp only: generate_session_id_def uuid4_eq_iff)
qed


lemma str_uuid_nth_14: "str_uuid n ! 14 = hex32 n ! 12"
  by (simp add: str_uuid_def Let_def nth_append length_hex32)

lemma str_uuid_nth_19: "str_uuid n ! 19 = hex32 n ! 16"
  by (simp add: str_uuid_def Let_def nth_append length_hex32)

lemma bit_single:
  "bit (push_bit k 1 :: 'a::len word) j \<longleftrightarrow> j = k \<and> k < LENGTH('a)"
  by (auto simp: bit_simps)

lemma version_nibble: "drop_bit 76 (uuid4 r) AND 0xf = (4 :: 128 word)"
proof -
  define k :: nat where "k = 2"
  have "drop_bit 76 (uuid4 r) AND mask 4 = (push_bit k 1 :: 128 word)"
  proof (rule bit_eqI)
    fix j
    have "bit (drop_bit 76 (uuid4 r) AND mask 4) j \<longleftrightarrow> j = 2"
      by (auto simp: bit_simps bit_uuid4)
    then show "bit (drop_bit 76 (uuid4 r) AND mask 4) j = bit (push_bit k 1 :: 128 word) j"
      unfolding bit_single by (simp add: k_def)
  qed
  then show ?thesis
    by (simp add: nibble_mask k_def)
qed

lemma version_digit: "generate_session_id r ! 14 = CHR ''4''"
proof -
  have "hex32 (uuid4 r) ! 12 = hex_char (unat (drop_bit 76 (uuid4 r) AND 0xf))"
    by (simp add: hex32_nth)
  also have "\<dots> = hex_char 4"
    by (simp only: version_nibble) simp
  also have "\<dots> = CHR ''4''"
    by (simp add: hex_char_def)
  finally show ?thesis
    by (simp only: generate_session_id_def str_uuid_nth_14)
qed

subsection \<open>Initialization and submission\<close>

lemma initialize_sets_both:
  "messages (initialize r ss) \<noteq> None \<and> session_id (initialize r ss) \<noteq> None"
  by (simp add: initialize_def Let_def)

lemma initialize_keeps:
  "messages ss = Some h \<Longrightarrow> session_id ss = Some sid \<Longrightarrow> initialize r ss = ss"
  by (simp add: initialize_def Let_def)

lemma initialize_twice: "initialize r' (initialize r ss) = initialize r ss"
  by (simp add: initialize_def Let_def)

lemma initialize_empty:
  "initialize r empty_session
     = \<lparr>messages = Some [], session_id = Some (generate_session_id r)\<rparr>"
  by (simp add: initialize_def Let_def empty_session_def)

lemma main_chat_unfold:
  assumes "app_mode inp \<noteq> ''Commute Tracker''"
    and "messages (initialize (urandom env) (session st)) = Some history"
    and "session_id (initialize (urandom env) (session st)) = Some sid"
    and "user_input inp = Some user_text" and "user_text \<noteq> []"
  shows "main env inp st =
    (case send_message_to_llm (post env) (WEBHOOK_URL env) sid user_text of
       Inl e \<Rightarrow>
         (st\<lparr>session := (initialize (urandom env) (session st))
               \<lparr>messages := Some (history @ [\<lparr>role = ''user'', content = JStr user_text\<rparr>])\<rparr>\<rparr>,
          map (\<lambda>m. ChatMessage (role m) (content m)) history
            @ [ChatMessage ''user'' (JStr user_text)],
          Some e)
     | Inr llm_response \<Rightarrow>
         (st\<lparr>session := (initialize (urandom env) (session st))
               \<lparr>messages := Some ((history @ [\<lparr>role = ''user'', content = JStr user_text\<rparr>])
                                   @ [\<lparr>role = ''assistant'', content = llm_response\<rparr>])\<rparr>\<rparr>,
          (map (\<lambda>m. ChatMessage (role m) (content m)) history
            @ [ChatMessage ''user'' (JStr user_text)])
            @ [ChatMessage ''assistant'' llm_response],
          None))"
  using assms by (simp add: main_def Let_def)

lemma main_chat_idle:
  assumes "app_mode inp \<noteq> ''Commute Tracker''"
    and "messages (initialize (urandom env) (session st)) = Some history"
    and "session_id (initialize (urandom env) (session st)) = Some sid"
    and "user_input inp = None \<or> user_input inp = Some []"
  shows "main env inp st =
     (st\<lparr>session := initialize (urandom env) (session st)\<rparr>,
      map (\<lambda>m. ChatMessage (role m) (content m)) history, None)"
  using assms by (auto simp add: main_def Let_def)

lemma main_tracker_session:
  "app_mode inp = ''Commute Tracker'' \<Longrightarrow> session (fst (main env inp st)) = session st"
  by (simp add: main_def Let_def split: prod.splits)


lemma error_reply:
  assumes "post_fn url \<lparr>sessionId = sid, chatInput = user_text\<rparr> = Response resp"
    and "status_code resp \<noteq> 200"
  shows "send_message_to_llm post_fn url sid user_text
         = Inr (JStr (''Error: '' @ str_int (status_code resp) @ '' - '' @ response_text resp))"
  using assms by (simp add: send_message_to_llm_def Let_def)

lemma output_reply:
  assumes "post_fn url \<lparr>sessionId = sid, chatInput = user_text\<rparr> = Response resp"
    and "status_code resp = 200"
    and "json_body resp = Some (JDict items)" and "map_of items ''output'' = Some out"
  shows "send_message_to_llm post_fn url sid user_text = Inr out"
  using assms by (simp add: send_message_to_llm_def Let_def)

lemma main_chat_reply:
  assumes "app_mode inp \<noteq> ''Commute Tracker''"
    and "messages (initialize (urandom env) (session st)) = Some history"
    and "session_id (initialize (urandom env) (session st)) = Some sid"
    and "user_input inp = Some user_text" and "user_text \<noteq> []"
    and "send_message_to_llm (post env) (WEBHOOK_URL env) sid user_text = Inr reply"
  shows "snd (snd (main env inp st)) = None"
    and "messages (session (fst (main env inp st)))
         = Some (history @ [\<lparr>role = ''user'', content = JStr user_text\<rparr>,
                            \<lparr>role = ''assistant'', content = reply\<rparr>])"
    and "session_id (session (fst (main env inp st))) = Some sid"
  using assms by (simp_all add: main_chat_unfold)

lemma main_chat_raise:
  assumes "app_mode inp \<noteq> ''Commute Tracker''"
    and "messages (initialize (urandom env) (session st)) = Some history"
    and "session_id (initialize (urandom env) (session st)) = Some sid"
    and "user_input inp = Some user_text" and "user_text \<noteq> []"
    and "send_message_to_llm (post env) (WEBHOOK_URL env) sid user_text = Inl e"
  shows "snd (snd (main env inp st)) = Some e"
    and "messages (session (fst (main env inp st)))
         = Some (history @ [\<lparr>role = ''user'', content = JStr user_text\<rparr>])"
    and "session_id (session (fst (main env inp st))) = Some sid"
  using assms by (simp_all add: main_chat_unfold)

lemma main_keeps_session:
  assumes "messages (session st) = Some history" and "session_id (session st) = Some sid"
  shows "session_id (session (fst (main env inp st))) = Some sid
         \<and> take (length history) (transcript (fst (main env inp st))) = history"
proof (cases "app_mode inp = ''Commute Tracker''")
  case True
  then have "session (fst (main env inp st)) = session st"
    by (rule main_tracker_session)
  then show ?thesis
    using assms by (simp add: transcript_def)
next
  case chat: False
  have init: "initialize (urandom env) (session st) = session st"
    using assms by (rule initialize_keeps)
  have m: "messages (initialize (urandom env) (session st)) = Some history"
    and s: "session_id (initialize (urandom env) (session st)) = Some sid"
    using assms by (simp_all only: init)
  show ?thesis
  proof (cases "user_input inp = None \<or> user_input inp = Some []")
    case True
    from main_chat_idle [OF chat m s True] show ?thesis
      using assms by (simp add: init transcript_def)
  next
    case False
    then obtain user_text where u: "user_input inp = Some user_text" and ne: "user_text \<noteq> []"
      by auto
    show ?thesis
    proof (cases "send_message_to_llm (post env) (WEBHOOK_URL env) sid user_text")
      case (Inl e)
      from main_chat_raise [OF chat m s u ne Inl] show ?thesis
        by (simp add: transcript_def)
    next
      case (Inr reply)
      from main_chat_reply [OF chat m s u ne Inr] show ?thesis
        by (simp add: transcript_def)
    qed
  qed
qed

text \<open>
  Claim C9. Chat initialization is idempotent. On the first render of a session it creates an
  empty message sequence and a freshly generated identifier: the text of a version 4 UUID made
  from the random bits of this run, in which all 122 bits that a version 4 UUID leaves open
  enter, so that two runs get the same identifier only when their random bits agree there.
  For a session that already has an identifier and a history it changes nothing, and no run
  of \<open>main\<close> replaces the identifier or drops or alters the messages already in the history.
\<close>

theorem initialize_idempotent:
  "initialize r empty_session
     = \<lparr>messages = Some [], session_id = Some (generate_session_id r)\<rparr>
   \<and> is_uuid_format (generate_session_id r)
   \<and> generate_session_id r ! 14 = CHR ''4''
   \<and> (generate_session_id r = generate_session_id r'
        \<longleftrightarrow> r AND NOT uuid_fixed_bits = r' AND NOT uuid_fixed_bits)
   \<and> (messages ss = Some history \<and> session_id ss = Some sid \<longrightarrow> initialize r ss = ss)
   \<and> initialize r' (initialize r ss) = initialize r ss
   \<and> (messages (session st) = Some history \<and> session_id (session st) = Some sid \<longrightarrow>
        session_id (session (fst (main env inp st))) = Some sid
        \<and> take (length history) (transcript (fst (main env inp st))) = history)"
  using initialize_empty generate_session_id_format version_digit generate_session_id_eq_iff
    initialize_keeps initialize_twice main_keeps_session by (intro conjI impI) blast+

theorem initialize_idempotent_witness:
  "messages returning_session
     = Some [\<lparr>role = ''user'', content = JStr ''hello''\<rparr>,
             \<lparr>role = ''assistant'', content = JStr ''hi there''\<rparr>]
   \<and> session_id returning_session = Some ''6f1c2a52-58a4-4c0e-9b53-0d2f6f1f7a11''
   \<and> initialize 7 returning_session = returning_session
   \<and> is_uuid_format (generate_session_id 7)
   \<and> generate_session_id 7 \<noteq> generate_session_id 8
   \<and> session_id (session (fst (main (env_of stub_500) say_hi
          \<lparr>session = returning_session, database = None\<rparr>)))
        = Some ''6f1c2a52-58a4-4c0e-9b53-0d2f6f1f7a11''
   \<and> take 2 (transcript (fst (main (env_of stub_500) say_hi
          \<lparr>session = returning_session, database = None\<rparr>)))
        = [\<lparr>role = ''user'', content = JStr ''hello''\<rparr>,
           \<lparr>role = ''assistant'', content = JStr ''hi there''\<rparr>]"
proof -
  let ?h = "[\<lparr>role = ''user'', content = JStr ''hello''\<rparr>,
             \<lparr>role = ''assistant'', content = JStr ''hi there''\<rparr>]"
  let ?st = "\<lparr>session = returning_session, database = None\<rparr>"
  have m: "messages returning_session = Some ?h"
    and s: "session_id returning_session = Some ''6f1c2a52-58a4-4c0e-9b53-0d2f6f1f7a11''"
    by (simp_all add: returning_session_def)
  have m': "messages (session ?st) = Some ?h"
    and s': "session_id (session ?st) = Some ''6f1c2a52-58a4-4c0e-9b53-0d2f6f1f7a11''"
    by (simp_all add: returning_session_def)
  note inst = initialize_idempotent [of 7 8 returning_session ?h
      "''6f1c2a52-58a4-4c0e-9b53-0d2f6f1f7a11''" ?st "env_of stub_500" say_hi]
  have bits: "(7 :: 128 word) AND NOT uuid_fixed_bits \<noteq> 8 AND NOT uuid_fixed_bits"
    by (simp add: uuid_fixed_bits_def)
  from inst bits have fresh: "generate_session_id 7 \<noteq> generate_session_id 8"
    by blast
  from inst m s have a: "initialize 7 returning_session = returning_session"
    by blast
  from inst have b: "is_uuid_format (generate_session_id 7)"
    by blast
  from inst m' s' have c: "session_id (session (fst (main (env_of stub_500) say_hi ?st)))
        = Some ''6f1c2a52-58a4-4c0e-9b53-0d2f6f1f7a11''"
    and d: "take (length ?h) (transcript (fst (main (env_of stub_500) say_hi ?st))) = ?h"
    by blast+
  from d have d': "take 2 (transcript (fst (main (env_of stub_500) say_hi ?st))) = ?h"
    by (simp add: numeral_2_eq_2)
  from m s a b fresh c d' show ?thesis
    by (intro conjI)
qed

text \<open>
  Claim C3. When the webhook answers a submission with a status code \<open>S\<close> other than 200 and
  body \<open>B\<close>, the reply is exactly the text \<open>Error: S - B\<close>; no exception is raised and
  the text is appended to the transcript as an assistant message, after the user message.
  The witness is the stub that answers HTTP 500 with body \<open>internal error\<close>.
\<close>

theorem non_200_reply_in_transcript:
  assumes "app_mode inp \<noteq> ''Commute Tracker''"
    and "user_input inp = Some user_text" and "user_text \<noteq> []"
    and "messages (initialize (urandom env) (session st)) = Some history"
    and "session_id (initialize (urandom env) (session st)) = Some sid"
    and "post env (WEBHOOK_URL env) \<lparr>sessionId = sid, chatInput = user_text\<rparr> = Response resp"
    and "status_code resp \<noteq> 200"
  shows "send_message_to_llm (post env) (WEBHOOK_URL env) sid user_text
           = Inr (JStr (''Error: '' @ str_int (status_code resp) @ '' - '' @ response_text resp))
         \<and> snd (snd (main env inp st)) = None
         \<and> messages (session (fst (main env inp st)))
           = Some (history @
               [\<lparr>role = ''user'', content = JStr user_text\<rparr>,
                \<lparr>role = ''assistant'',
                 content = JStr (''Error: '' @ str_int (status_code resp) @ '' - ''
                                 @ response_text resp)\<rparr>])"
proof -
  have reply: "send_message_to_llm (post env) (WEBHOOK_URL env) sid user_text
           = Inr (JStr (''Error: '' @ str_int (status_code resp) @ '' - '' @ response_text resp))"
    using assms(6,7) by (rule error_reply)
  from main_chat_reply [OF assms(1,4,5,2,3) reply] reply show ?thesis
    by (intro conjI)
qed

theorem non_200_reply_in_transcript_witness:
  "snd (snd (main (env_of stub_500) say_hi fresh_state)) = None
   \<and> messages (session (fst (main (env_of stub_500) say_hi fresh_state)))
     = Some [\<lparr>role = ''user'', content = JStr ''hi''\<rparr>,
             \<lparr>role = ''assistant'', content = JStr ''Error: 500 - internal error''\<rparr>]
   \<and> last (transcript (fst (main (env_of stub_500) say_hi fresh_state)))
     = \<lparr>role = ''assistant'', content = JStr ''Error: 500 - internal error''\<rparr>"
proof -
  let ?resp = "\<lparr>status_code = 500, response_text = ''internal error'', json_body = None\<rparr>"
  let ?sid = "generate_session_id 0"
  have h1: "app_mode say_hi \<noteq> ''Commute Tracker''"
    and h2: "user_input say_hi = Some ''hi''" and h3: "''hi'' \<noteq> []"
    by (simp_all add: say_hi_def)
  have h4: "messages (initialize (urandom (env_of stub_500)) (session fresh_state)) = Some []"
    and h5: "session_id (initialize (urandom (env_of stub_500)) (session fresh_state))
             = Some ?sid"
    by (simp_all add: env_of_def fresh_state_def empty_session_def initialize_def Let_def)
  have h6: "post (env_of stub_500) (WEBHOOK_URL (env_of stub_500))
              \<lparr>sessionId = ?sid, chatInput = ''hi''\<rparr> = Response ?resp"
    by (simp add: env_of_def stub_500_def)
  have h7: "status_code ?resp \<noteq> 200"
    by simp
  have rendered: "''Error: '' @ str_int (status_code ?resp) @ '' - '' @ response_text ?resp
             = ''Error: 500 - internal error''"
    by (simp add: str_int_def digits10.simps digit_char_def)
  from non_200_reply_in_transcript [OF h1 h2 h3 h4 h5 h6 h7]
  have a: "snd (snd (main (env_of stub_500) say_hi fresh_state)) = None"
    and b: "messages (session (fst (main (env_of stub_500) say_hi fresh_state)))
     = Some [\<lparr>role = ''user'', content = JStr ''hi''\<rparr>,
             \<lparr>role = ''assistant'', content = JStr ''Error: 500 - internal error''\<rparr>]"
    unfolding rendered by simp_all
  from b have c: "last (transcript (fst (main (env_of stub_500) say_hi fresh_state)))
     = \<lparr>role = ''assistant'', content = JStr ''Error: 500 - internal error''\<rparr>"
    by (simp add: transcript_def)
  from a b c show ?thesis
    by (intro conjI)
qed

text \<open>
  Claim C7, as stated, fails when the webhook gives no usable reply: for HTTP 200 with a JSON
  object that has no \<open>output\<close> field the run ends with \<open>KeyError\<close> after the user message
  alone was appended, so the transcript grows by one message.
\<close>

theorem submit_grows_by_two_counterexample:
  "user_input say_hi = Some ''hi''
   \<and> transcript fresh_state = []
   \<and> transcript (fst (main (env_of stub_200_empty) say_hi fresh_state))
       = [\<lparr>role = ''user'', content = JStr ''hi''\<rparr>]
   \<and> length (transcript (fst (main (env_of stub_200_empty) say_hi fresh_state)))
       \<noteq> length (transcript fresh_state) + 2
   \<and> snd (snd (main (env_of stub_200_empty) say_hi fresh_state)) = Some KeyError"
  by (simp add: main_def Let_def env_of_def say_hi_def fresh_state_def empty_session_def
      initialize_def stub_200_empty_def send_message_to_llm_def transcript_def)

text \<open>
  Claim C7, amended. For every non-empty user text, whenever the webhook answers with a status
  other than 200, or with a JSON object that has an \<open>output\<close> field, the run appends the
  user message, then the assistant message with the reply (the \<open>output\<close> field on HTTP 200),
  raises nothing, and the transcript grows by exactly these two messages with the earlier
  messages unchanged.
\<close>

theorem submit_appends_user_then_assistant:
  assumes "app_mode inp \<noteq> ''Commute Tracker''"
    and "user_input inp = Some user_text" and "user_text \<noteq> []"
    and "messages (initialize (urandom env) (session st)) = Some history"
    and "session_id (initialize (urandom env) (session st)) = Some sid"
    and "post env (WEBHOOK_URL env) \<lparr>sessionId = sid, chatInput = user_text\<rparr> = Response resp"
    and "status_code resp \<noteq> 200
         \<or> (json_body resp = Some (JDict items) \<and> map_of items ''output'' = Some out)"
  shows "snd (snd (main env inp st)) = None
         \<and> messages (session (fst (main env inp st)))
           = Some (history @
               [\<lparr>role = ''user'', content = JStr user_text\<rparr>,
                \<lparr>role = ''assistant'',
                 content = (if status_code resp = 200 then out
                            else JStr (''Error: '' @ str_int (status_code resp) @ '' - ''
                                       @ response_text resp))\<rparr>])
         \<and> length (transcript (fst (main env inp st))) = length history + 2
         \<and> take (length history) (transcript (fst (main env inp st))) = history"
proof -
  let ?reply = "if status_code resp = 200 then out
                else JStr (''Error: '' @ str_int (status_code resp) @ '' - ''
                           @ response_text resp)"
  have reply: "send_message_to_llm (post env) (WEBHOOK_URL env) sid user_text = Inr ?reply"
  proof (cases "status_code resp = 200")
    case True
    with assms(7) have "json_body resp = Some (JDict items)"
      and "map_of items ''output'' = Some out"
      by simp_all
    with assms(6) True show ?thesis
      by (simp add: output_reply)
  next
    case False
    with assms(6) show ?thesis
      by (simp add: error_reply)
  qed
  note run = main_chat_reply [OF assms(1,4,5,2,3) reply]
  from run(2) have "transcript (fst (main env inp st))
      = history @ [\<lparr>role = ''user'', content = JStr user_text\<rparr>,
                   \<lparr>role = ''assistant'', content = ?reply\<rparr>]"
    by (simp add: transcript_def)
  then have "length (transcript (fst (main env inp st))) = length history + 2"
    and "take (length history) (transcript (fst (main env inp st))) = history"
    by simp_all
  with run(1,2) show ?thesis
    by (intro conjI)
qed

theorem submit_appends_user_then_assistant_witness:
  "snd (snd (main (env_of stub_200_hello) say_hi fresh_state)) = None
   \<and> messages (session (fst (main (env_of stub_200_hello) say_hi fresh_state)))
     = Some [\<lparr>role = ''user'', content = JStr ''hi''\<rparr>,
             \<lparr>role = ''assistant'', content = JStr ''hello''\<rparr>]
   \<and> length (transcript (fst (main (env_of stub_200_hello) say_hi fresh_state))) = 2"
proof -
  let ?resp = "\<lparr>status_code = 200, response_text = ''{\"output\": \"hello\"}'',
               json_body = Some (JDict [(''output'', JStr ''hello'')])\<rparr>"
  let ?sid = "generate_session_id 0"
  let ?env = "env_of stub_200_hello"
  have h1: "app_mode say_hi \<noteq> ''Commute Tracker''"
    and h2: "user_input say_hi = Some ''hi''" and h3: "''hi'' \<noteq> []"
    by (simp_all add: say_hi_def)
  have h4: "messages (initialize (urandom ?env) (session fresh_state)) = Some []"
    and h5: "session_id (initialize (urandom ?env) (session fresh_state)) = Some ?sid"
    by (simp_all add: env_of_def fresh_state_def empty_session_def initialize_def Let_def)
  have h6: "post ?env (WEBHOOK_URL ?env) \<lparr>sessionId = ?sid, chatInput = ''hi''\<rparr>
            = Response ?resp"
    by (simp add: env_of_def stub_200_hello_def)
  have h7: "status_code ?resp \<noteq> 200
            \<or> (json_body ?resp = Some (JDict [(''output'', JStr ''hello'')])
               \<and> map_of [(''output'', JStr ''hello'')] ''output'' = Some (JStr ''hello''))"
    by simp
  from submit_appends_user_then_assistant [OF h1 h2 h3 h4 h5 h6 h7]
  show ?thesis
    by simp
qed

section \<open>Properties of the store queries\<close>

subsection \<open>The summary by route\<close>




lemma all_results_Some:
  "all_results rs = Some xs \<Longrightarrow> rs = map Some xs"
  by (induction rs arbitrary: xs rule: all_results.induct) (auto split: option.splits)














lemma round_avg_exact:
  "\<bar>total_val\<bar> < 10 ^ 14 \<Longrightarrow> cnt dvd 2 * total_val \<Longrightarrow>
   round_avg fp total_val cnt = of_int total_val / of_int cnt"
  by (simp add: round_avg_def)






subsection \<open>The recent entries\<close>

lemma order_recent_sorted:
  "sorted_wrt (\<lambda>a b. recent_key b \<le> recent_key a) (order_recent rows)"
proof -
  have "sorted (map recent_key (sort_key recent_key rows))"
    by simp
  then have "sorted_wrt (\<lambda>a b. recent_key a \<le> recent_key b) (sort_key recent_key rows)"
    by (simp only: sorted_map)
  then show ?thesis
    by (simp only: order_recent_def sorted_wrt_rev)
qed

lemma sql_limit_sorted: "sorted_wrt P xs \<Longrightarrow> sorted_wrt P (sql_limit n xs)"
  by (simp add: sql_limit_def sorted_wrt_take)

lemma recent_key_le:
  "recent_key b \<le> recent_key a \<Longrightarrow>
   travel_date a > travel_date b
   \<or> (travel_date a = travel_date b
      \<and> (travel_time a > travel_time b
         \<or> (travel_time a = travel_time b \<and> row_id a \<ge> row_id b)))"
  by (auto simp: recent_key_def less_eq_prod_def)

lemma select_sorted:
  "sorted_wrt (\<lambda>a b. travel_date a > travel_date b
      \<or> (travel_date a = travel_date b
         \<and> (travel_time a > travel_time b
            \<or> (travel_time a = travel_time b \<and> row_id a \<ge> row_id b))))
     (select_commute_logs n t)"
proof -
  have "sorted_wrt (\<lambda>a b. recent_key b \<le> recent_key a) (select_commute_logs n t)"
    unfolding select_commute_logs_def by (rule sql_limit_sorted) (rule order_recent_sorted)
  then show ?thesis
    by (rule sorted_wrt_mono_rel [rotated]) (rule recent_key_le)
qed

lemma length_select: "0 \<le> n \<Longrightarrow> length (select_commute_logs n t) \<le> nat n"
  by (simp add: select_commute_logs_def sql_limit_def)

lemma length_select_eq:
  "0 \<le> n \<Longrightarrow> length (select_commute_logs n t) = min (nat n) (length (table_rows t))"
  by (simp add: select_commute_logs_def sql_limit_def order_recent_def)

lemma set_select: "set (select_commute_logs n t) \<subseteq> set (table_rows t)"
proof -
  have "set (sql_limit n (order_recent (table_rows t))) \<subseteq> set (order_recent (table_rows t))"
    by (auto simp: sql_limit_def dest: in_set_takeD)
  then show ?thesis
    by (simp add: select_commute_logs_def order_recent_def)
qed

lemma recent_key_inj: "distinct (map row_id rows) \<Longrightarrow> inj_on recent_key (set rows)"
proof (rule inj_onI)
  fix a b
  assume d: "distinct (map row_id rows)" and a: "a \<in> set rows" and b: "b \<in> set rows"
    and k: "recent_key a = recent_key b"
  from k have "row_id a = row_id b"
    by (simp add: recent_key_def)
  moreover from d have "inj_on row_id (set rows)"
    by (simp only: distinct_map)
  ultimately show "a = b"
    using a b by (rule_tac inj_onD)
qed

lemma sort_key_unique:
  assumes "distinct (map row_id xs)" and "distinct (map row_id ys)" and "set xs = set ys"
  shows "sort_key recent_key xs = sort_key recent_key ys"
proof -
  let ?a = "sort_key recent_key xs" and ?b = "sort_key recent_key ys"
  have inj: "inj_on recent_key (set xs)" "inj_on recent_key (set ys)"
    using assms(1,2) by (simp_all only: recent_key_inj)
  from assms(1) have dx: "distinct xs" by (simp only: distinct_map)
  from assms(2) have dy: "distinct ys" by (simp only: distinct_map)
  have "distinct (map recent_key ?a)"
    using dx inj(1) by (simp add: distinct_map)
  moreover have "distinct (map recent_key ?b)"
    using dy inj(2) by (simp add: distinct_map)
  moreover have "sorted (map recent_key ?a)" and "sorted (map recent_key ?b)"
    by simp_all
  moreover have "set (map recent_key ?a) = set (map recent_key ?b)"
    using assms(3) by simp
  ultimately have "map recent_key ?a = map recent_key ?b"
    by (simp only: sorted_distinct_set_unique)
  moreover have "inj_on recent_key (set ?a \<union> set ?b)"
    using inj assms(3) by simp
  ultimately show ?thesis
    by (simp only: inj_on_map_eq_map)
qed


lemma select_layout_independent:
  assumes "distinct (map row_id (table_rows t))" and "distinct (map row_id (table_rows t'))"
    and "set (table_rows t) = set (table_rows t')"
  shows "select_commute_logs n t = select_commute_logs n t'"
  using sort_key_unique [OF assms]
  by (simp add: select_commute_logs_def order_recent_def)

lemma fetch_layout_independent:
  assumes "distinct (map row_id (table_rows t))" and "distinct (map row_id (table_rows t'))"
    and "set (table_rows t) = set (table_rows t')"
  shows "fetch_commute_logs limit t = fetch_commute_logs limit t'"
  by (simp add: fetch_commute_logs_def Let_def select_layout_independent [OF assms])

lemma select_all: "select_commute_logs (- 1) t = order_recent (table_rows t)"
  by (simp add: select_commute_logs_def sql_limit_def)

lemma select_prefix:
  "0 \<le> n \<Longrightarrow> select_commute_logs n t = take (nat n) (select_commute_logs (- 1) t)"
  by (simp add: select_commute_logs_def sql_limit_def)

lemma mset_select_all: "mset (select_commute_logs (- 1) t) = mset (table_rows t)"
  by (simp add: select_all order_recent_def)

lemma row_to_dict_columns:
  "map fst (row_to_dict r) = header
   \<and> dict_get (row_to_dict r) ''travel_date'' = PyStr (travel_date r)
   \<and> dict_get (row_to_dict r) ''travel_time'' = PyStr (travel_time r)
   \<and> dict_get (row_to_dict r) ''route_name'' = PyStr (route_name r)
   \<and> dict_get (row_to_dict r) ''duration_minutes'' = PyInt (duration_minutes r)
   \<and> dict_get (row_to_dict r) ''notes''
       = (case notes_col r of None \<Rightarrow> PyNone | Some n \<Rightarrow> PyStr n)
   \<and> dict_get (row_to_dict r) ''created_at'' = PyStr (created_at r)"
  by (simp add: row_to_dict_def header_def dict_get_def)

lemma fetch_in_range:
  "in_int64 n \<Longrightarrow> fetch_commute_logs (Some n) t = Inr (map row_to_dict (select_commute_logs n t))"
  by (simp add: fetch_commute_logs_def)

lemma fetch_out_of_range:
  "\<not> in_int64 n \<Longrightarrow> fetch_commute_logs (Some n) t = Inl OverflowError"
  by (simp add: fetch_commute_logs_def)

lemma fetch_default: "fetch_commute_logs None t = fetch_commute_logs (Some 50) t"
  by (simp add: fetch_commute_logs_def)

text \<open>
  Claim C2, as stated, fails for a negative limit, which SQLite reads as no limit: with the
  limit \<open>-1\<close> all three rows of the example table are returned.
\<close>

theorem negative_limit_counterexample:
  "fetch_commute_logs (Some (- 1)) route_table
     = Inr (map row_to_dict
         [mk_log 3 ''2024-01-03'' ''08:30'' ''RouteA'' 50,
          mk_log 2 ''2024-01-03'' ''08:30'' ''RouteB'' 20,
          mk_log 1 ''2024-01-02'' ''08:30'' ''RouteA'' 30])
   \<and> \<not> int (length (map row_to_dict
         [mk_log 3 ''2024-01-03'' ''08:30'' ''RouteA'' 50,
          mk_log 2 ''2024-01-03'' ''08:30'' ''RouteB'' 20,
          mk_log 1 ''2024-01-02'' ''08:30'' ''RouteA'' 30])) \<le> - 1"
proof -
  have "select_commute_logs (- 1) route_table
        = [mk_log 3 ''2024-01-03'' ''08:30'' ''RouteA'' 50,
           mk_log 2 ''2024-01-03'' ''08:30'' ''RouteB'' 20,
           mk_log 1 ''2024-01-02'' ''08:30'' ''RouteA'' 30]"
    by code_simp
  moreover have "in_int64 (- 1)"
    by (simp add: in_int64_def)
  ultimately show ?thesis
    by (simp add: fetch_in_range)
qed

text \<open>
  Claim C2, amended. For every table and every limit \<open>n\<close> with \<open>0 \<le> n < 2 ^ 63\<close>,
  \<open>fetch_commute_logs\<close> returns at most \<open>n\<close> rows: the dictionaries, with the six columns
  of the header and the values of the row, of the first \<open>n\<close> rows of the stored rows ordered
  by \<open>travel_date\<close> descending, then \<open>travel_time\<close> descending, then \<open>id\<close> descending. The
  call without argument uses the limit 50. The result is a function of the set of stored
  rows alone (ids being unique), so that calls with no write in between return the same
  sequence however the store lays the rows out. A limit outside the 64-bit range raises.
\<close>

theorem fetch_commute_logs_recent_first:
  assumes "0 \<le> n" and "n < 2 ^ 63"
  shows "fetch_commute_logs (Some n) t = Inr (map row_to_dict (select_commute_logs n t))
   \<and> (\<forall>r. map fst (row_to_dict r) = header
          \<and> dict_get (row_to_dict r) ''travel_date'' = PyStr (travel_date r)
          \<and> dict_get (row_to_dict r) ''travel_time'' = PyStr (travel_time r)
          \<and> dict_get (row_to_dict r) ''route_name'' = PyStr (route_name r)
          \<and> dict_get (row_to_dict r) ''duration_minutes'' = PyInt (duration_minutes r)
          \<and> dict_get (row_to_dict r) ''notes''
              = (case notes_col r of None \<Rightarrow> PyNone | Some x \<Rightarrow> PyStr x)
          \<and> dict_get (row_to_dict r) ''created_at'' = PyStr (created_at r))
   \<and> length (map row_to_dict (select_commute_logs n t)) \<le> nat n
   \<and> length (map row_to_dict (select_commute_logs n t)) = min (nat n) (length (table_rows t))
   \<and> select_commute_logs n t = take (nat n) (select_commute_logs (- 1) t)
   \<and> mset (select_commute_logs (- 1) t) = mset (table_rows t)
   \<and> sorted_wrt (\<lambda>a b. travel_date a > travel_date b
        \<or> (travel_date a = travel_date b
           \<and> (travel_time a > travel_time b
              \<or> (travel_time a = travel_time b \<and> row_id a \<ge> row_id b))))
       (select_commute_logs (- 1) t)
   \<and> fetch_commute_logs None t = fetch_commute_logs (Some 50) t
   \<and> (distinct (map row_id (table_rows t)) \<and> distinct (map row_id (table_rows t'))
        \<and> set (table_rows t) = set (table_rows t')
      \<longrightarrow> fetch_commute_logs limit t = fetch_commute_logs limit t')
   \<and> (\<not> in_int64 m \<longrightarrow> fetch_commute_logs (Some m) t = Inl OverflowError)"
proof -
  from assms have rng: "in_int64 n"
    by (simp add: in_int64_def)
  have a: "fetch_commute_logs (Some n) t = Inr (map row_to_dict (select_commute_logs n t))"
    using rng by (rule fetch_in_range)
  have b: "length (map row_to_dict (select_commute_logs n t)) \<le> nat n"
    using assms(1) by (simp add: length_select)
  have c: "length (map row_to_dict (select_commute_logs n t))
           = min (nat n) (length (table_rows t))"
    using assms(1) by (simp add: length_select_eq)
  have d: "select_commute_logs n t = take (nat n) (select_commute_logs (- 1) t)"
    using assms(1) by (rule select_prefix)
  have e: "distinct (map row_id (table_rows t)) \<and> distinct (map row_id (table_rows t'))
        \<and> set (table_rows t) = set (table_rows t')
      \<longrightarrow> fetch_commute_logs limit t = fetch_commute_logs limit t'"
    by (simp add: fetch_layout_independent)
  have f: "\<not> in_int64 m \<longrightarrow> fetch_commute_logs (Some m) t = Inl OverflowError"
    by (simp add: fetch_out_of_range)
  have g: "\<forall>r. map fst (row_to_dict r) = header
          \<and> dict_get (row_to_dict r) ''travel_date'' = PyStr (travel_date r)
          \<and> dict_get (row_to_dict r) ''travel_time'' = PyStr (travel_time r)
          \<and> dict_get (row_to_dict r) ''route_name'' = PyStr (route_name r)
          \<and> dict_get (row_to_dict r) ''duration_minutes'' = PyInt (duration_minutes r)
          \<and> dict_get (row_to_dict r) ''notes''
              = (case notes_col r of None \<Rightarrow> PyNone | Some x \<Rightarrow> PyStr x)
          \<and> dict_get (row_to_dict r) ''created_at'' = PyStr (created_at r)"
    using row_to_dict_columns by (rule allI)
  from a g b c d mset_select_all select_sorted [of "- 1" t] fetch_default e f
  show ?thesis
    by (intro conjI)
qed

theorem fetch_commute_logs_recent_first_witness:
  "(0::int) \<le> 2 \<and> (2::int) < 2 ^ 63
   \<and> length (table_rows route_table) = 3
   \<and> fetch_commute_logs (Some 2) route_table
       = Inr [[(''travel_date'', PyStr ''2024-01-03''), (''travel_time'', PyStr ''08:30''),
               (''route_name'', PyStr ''RouteA''), (''duration_minutes'', PyInt 50),
               (''notes'', PyStr []), (''created_at'', PyStr ''2024-01-03T08:30:00'')],
              [(''travel_date'', PyStr ''2024-01-03''), (''travel_time'', PyStr ''08:30''),
               (''route_name'', PyStr ''RouteB''), (''duration_minutes'', PyInt 20),
               (''notes'', PyStr []), (''created_at'', PyStr ''2024-01-03T08:30:00'')]]
   \<and> map row_id (select_commute_logs 2 route_table) = [3, 2]
   \<and> distinct (map row_id (table_rows route_table))
   \<and> distinct (map row_id (table_rows route_table_shuffled))
   \<and> set (table_rows route_table) = set (table_rows route_table_shuffled)
   \<and> fetch_commute_logs (Some 2) route_table = fetch_commute_logs (Some 2) route_table_shuffled"
proof -
  note inst = fetch_commute_logs_recent_first
    [of 2 route_table route_table_shuffled "Some 2" 0]
  have n: "(0::int) \<le> 2" and n': "(2::int) < 2 ^ 63"
    by simp_all
  have len: "length (table_rows route_table) = 3"
    by (simp add: route_table_def)
  have sel: "select_commute_logs 2 route_table
             = [mk_log 3 ''2024-01-03'' ''08:30'' ''RouteA'' 50,
                mk_log 2 ''2024-01-03'' ''08:30'' ''RouteB'' 20]"
    by code_simp
  then have ids: "map row_id (select_commute_logs 2 route_table) = [3, 2]"
    by (simp add: mk_log_def)
  have d1: "distinct (map row_id (table_rows route_table))"
    and d2: "distinct (map row_id (table_rows route_table_shuffled))"
    by (simp_all add: route_table_def route_table_shuffled_def mk_log_def)
  have same: "set (table_rows route_table) = set (table_rows route_table_shuffled)"
    by (auto simp: route_table_def route_table_shuffled_def)
  from inst [OF n n']
  have "fetch_commute_logs (Some 2) route_table
        = Inr (map row_to_dict (select_commute_logs 2 route_table))"
    by (rule conjunct1)
  then have res: "fetch_commute_logs (Some 2) route_table
       = Inr [[(''travel_date'', PyStr ''2024-01-03''), (''travel_time'', PyStr ''08:30''),
               (''route_name'', PyStr ''RouteA''), (''duration_minutes'', PyInt 50),
               (''notes'', PyStr []), (''created_at'', PyStr ''2024-01-03T08:30:00'')],
              [(''travel_date'', PyStr ''2024-01-03''), (''travel_time'', PyStr ''08:30''),
               (''route_name'', PyStr ''RouteB''), (''duration_minutes'', PyInt 20),
               (''notes'', PyStr []), (''created_at'', PyStr ''2024-01-03T08:30:00'')]]"
    by (simp add: sel row_to_dict_def mk_log_def)
  from inst [OF n n'] d1 d2 same
  have eq: "fetch_commute_logs (Some 2) route_table
            = fetch_commute_logs (Some 2) route_table_shuffled"
    by blast
  from n n' len res ids d1 d2 same eq show ?thesis
    by (intro conjI)
qed

section \<open>Properties of the commute tracker view\<close>

subsection \<open>Trimming\<close>

lemma utf8_chars_nonempty: "ch \<in> set (utf8_chars s) \<Longrightarrow> ch \<noteq> []"
  by (induction s rule: utf8_chars.induct) auto

lemma concat_utf8_chars: "concat (utf8_chars s) = s"
  by (induction s rule: utf8_chars.induct) simp_all

lemma concat_empty_iff:
  "\<forall>x\<in>set xs. x \<noteq> [] \<Longrightarrow> concat xs = [] \<longleftrightarrow> xs = []"
  by (cases xs) auto

lemma strip_empty_iff: "strip s = [] \<longleftrightarrow> list_all isspace (utf8_chars s)"
proof -
  let ?cs = "utf8_chars s"
  let ?l = "dropWhile isspace ?cs"
  let ?r = "rev (dropWhile isspace (rev ?l))"
  have "\<forall>x\<in>set ?r. x \<noteq> []"
  proof
    fix x assume "x \<in> set ?r"
    then have "x \<in> set ?l"
      by (auto dest: set_dropWhileD)
    then have "x \<in> set ?cs"
      by (rule set_dropWhileD)
    then show "x \<noteq> []"
      by (rule utf8_chars_nonempty)
  qed
  then have "strip s = [] \<longleftrightarrow> ?r = []"
    unfolding strip_def by (rule concat_empty_iff)
  also have "\<dots> \<longleftrightarrow> (\<forall>x\<in>set ?l. isspace x)"
    by (simp add: dropWhile_eq_Nil_conv)
  also have "\<dots> \<longleftrightarrow> ?l = []"
  proof
    assume all: "\<forall>x\<in>set ?l. isspace x"
    show "?l = []"
    proof (rule ccontr)
      assume ne: "?l \<noteq> []"
      then have "\<not> isspace (hd ?l)"
        by (rule hd_dropWhile)
      moreover from ne have "hd ?l \<in> set ?l"
        by (rule hd_in_set)
      ultimately show False
        using all by blast
    qed
  next
    assume e: "?l = []"
    show "\<forall>x\<in>set ?l. isspace x"
      unfolding e by simp
  qed
  also have "\<dots> \<longleftrightarrow> (\<forall>x\<in>set ?cs. isspace x)"
    by (simp only: dropWhile_eq_Nil_conv)
  finally show ?thesis
    by (simp only: list_all_iff)
qed

subsection \<open>Insertion\<close>

lemma foldr_max_ge: "x \<in> set xs \<Longrightarrow> x \<le> foldr max xs (s::int)"
  by (induction xs) auto


lemma largest_row_id_ge: "r \<in> set (table_rows t) \<Longrightarrow> row_id r \<le> largest_row_id t"
proof -
  assume "r \<in> set (table_rows t)"
  then have "row_id r \<in> set (map row_id (table_rows t))"
    by simp
  then show ?thesis
    unfolding largest_row_id_def by (rule foldr_max_ge)
qed

lemma foldr_max_less:
  "\<forall>x\<in>set xs. x < b \<Longrightarrow> s < b \<Longrightarrow> foldr max xs (s::int) < b"
  by (induction xs) auto

lemma largest_row_id_less:
  assumes "seq t < b" and "\<forall>r\<in>set (table_rows t). row_id r < b"
  shows "largest_row_id t < b"
  unfolding largest_row_id_def
proof (rule foldr_max_less)
  show "\<forall>x\<in>set (map row_id (table_rows t)). x < b"
    using assms(2) by simp
  show "seq t < b"
    by (rule assms(1))
qed

lemma isoformat_seconds_drops_microseconds:
  "isoformat_seconds (dt\<lparr>time_part := (time_part dt)\<lparr>microsecond := us\<rparr>\<rparr>) = isoformat_seconds dt"
  by (simp add: isoformat_seconds_def)


lemma insert_ok:
  assumes "in_int64 m" and "largest_row_id t < 2 ^ 63 - 1"
  shows "insert_commute_log clock d tm r m n t
   = Inr \<lparr>table_rows = table_rows t @ [\<lparr>row_id = largest_row_id t + 1, travel_date = d,
            travel_time = tm, route_name = r, duration_minutes = m, notes_col = Some n,
            created_at = isoformat_seconds clock\<rparr>],
          seq = largest_row_id t + 1\<rparr>"
  using assms by (simp add: insert_commute_log_def Let_def)

lemma insert_full:
  assumes "in_int64 m" and "2 ^ 63 - 1 \<le> largest_row_id t"
  shows "insert_commute_log clock d tm r m n t = Inl DatabaseFull"
  using assms by (simp add: insert_commute_log_def Let_def)

subsection \<open>The render\<close>

lemma submit_entry_blank:
  assumes "submitted frm" and "strip (form_route_name frm) = []"
  shows "submit_entry clock frm t = Inr (t, [StWarning Msg_enter_route_name])"
  using assms by (simp add: submit_entry_def)

lemma submit_entry_idle:
  "\<not> submitted frm \<Longrightarrow> submit_entry clock frm t = Inr (t, [])"
  by (simp add: submit_entry_def)

lemma submit_entry_valid:
  assumes "submitted frm" and "strip (form_route_name frm) \<noteq> []"
  shows "submit_entry clock frm t
    = (case insert_commute_log clock (date_isoformat (form_travel_date frm))
              (strftime_HM (form_travel_time frm)) (strip (form_route_name frm))
              (form_duration_minutes frm) (strip (form_notes frm)) t of
         Inl e \<Rightarrow> Inl e
       | Inr t' \<Rightarrow> Inr (t', [StSuccess Msg_saved]))"
  using assms by (simp add: submit_entry_def)

lemma render_after_submit:
  assumes "submit_entry clock frm (init_commute_db db) = Inr (t1, ui1)"
  shows "fst (render_commute_tracker clock fp frm db) = t1"
    and "take (length ui1) (fst (snd (render_commute_tracker clock fp frm db))) = ui1"
    and "snd (snd (render_commute_tracker clock fp frm db))
         = (case fetch_commute_summary fp t1 of Inl e \<Rightarrow> Some e | Inr _ \<Rightarrow> None)"
    and "set (fst (snd (render_commute_tracker clock fp frm db)))
         \<subseteq> set ui1 \<union> {LogsTable (map row_to_dict (select_commute_logs 50 t1)),
               DownloadButton (build_csv (map row_to_dict (select_commute_logs 50 t1))),
               StInfo Msg_no_logs, StInfo Msg_no_summary}
             \<union> range SummaryTable"
proof -
  have logs: "fetch_commute_logs (Some 50) t1 = Inr (map row_to_dict (select_commute_logs 50 t1))"
    by (simp add: fetch_commute_logs_def in_int64_def)
  show "fst (render_commute_tracker clock fp frm db) = t1"
    using assms logs
    by (simp add: render_commute_tracker_def Let_def split: sum.splits)
  show "take (length ui1) (fst (snd (render_commute_tracker clock fp frm db))) = ui1"
    using assms logs
    by (simp add: render_commute_tracker_def Let_def split: sum.splits)
  show "snd (snd (render_commute_tracker clock fp frm db))
         = (case fetch_commute_summary fp t1 of Inl e \<Rightarrow> Some e | Inr _ \<Rightarrow> None)"
    using assms logs
    by (simp add: render_commute_tracker_def Let_def split: sum.splits)
  show "set (fst (snd (render_commute_tracker clock fp frm db)))
         \<subseteq> set ui1 \<union> {LogsTable (map row_to_dict (select_commute_logs 50 t1)),
               DownloadButton (build_csv (map row_to_dict (select_commute_logs 50 t1))),
               StInfo Msg_no_logs, StInfo Msg_no_summary}
             \<union> range SummaryTable"
    using assms logs
    by (auto simp add: render_commute_tracker_def Let_def split: sum.splits if_splits)
qed

lemma render_submit_raises:
  assumes "submit_entry clock frm (init_commute_db db) = Inl e"
  shows "render_commute_tracker clock fp frm db = (init_commute_db db, [], Some e)"
  using assms by (simp add: render_commute_tracker_def Let_def)

lemma main_tracker:
  "app_mode inp = ''Commute Tracker'' \<Longrightarrow>
   main env inp st =
     (st\<lparr>database := Some (fst (render_commute_tracker (now env) (sqlite_real env) (form inp)
                                  (database st)))\<rparr>,
      fst (snd (render_commute_tracker (now env) (sqlite_real env) (form inp) (database st))),
      snd (snd (render_commute_tracker (now env) (sqlite_real env) (form inp) (database st))))"
  by (simp add: main_def Let_def split: prod.splits)


lemma hd_of_take: "take (length [x]) xs = [x] \<Longrightarrow> hd xs = x"
  by (cases xs) simp_all

text \<open>
  Claim C5. For a submission whose route name is empty or consists of whitespace characters
  only, the submission step returns without exception, with the table unchanged and the
  warning as its only message. So the table after the render is the table that
  \<open>init_commute_db\<close> found or created, the render shows the warning first and never the
  success message, and the render and the run of \<open>main\<close> end as a render without submission
  ends: with an exception only if the summary query over the unchanged table raises.
\<close>

theorem blank_route_name_rejected:
  assumes "submitted frm" and "list_all isspace (utf8_chars (form_route_name frm))"
  shows "submit_entry clock frm t = Inr (t, [StWarning Msg_enter_route_name])
     \<and> fst (render_commute_tracker clock fp frm db) = init_commute_db db
     \<and> table_rows (fst (render_commute_tracker clock fp frm db))
         = (case db of None \<Rightarrow> [] | Some t0 \<Rightarrow> table_rows t0)
     \<and> hd (fst (snd (render_commute_tracker clock fp frm db))) = StWarning Msg_enter_route_name
     \<and> StSuccess Msg_saved \<notin> set (fst (snd (render_commute_tracker clock fp frm db)))
     \<and> snd (snd (render_commute_tracker clock fp frm db))
         = (case fetch_commute_summary fp (init_commute_db db) of
              Inl e \<Rightarrow> Some e | Inr summary \<Rightarrow> None)
     \<and> snd (snd (render_commute_tracker clock fp frm db))
         = snd (snd (render_commute_tracker clock fp (frm\<lparr>submitted := False\<rparr>) db))
     \<and> (app_mode inp = ''Commute Tracker'' \<and> form inp = frm \<and> now env = clock
          \<and> sqlite_real env = fp \<and> database st = db \<longrightarrow>
        database (fst (main env inp st)) = Some (init_commute_db db)
        \<and> session (fst (main env inp st)) = session st
        \<and> snd (snd (main env inp st))
            = (case fetch_commute_summary fp (init_commute_db db) of
                 Inl e \<Rightarrow> Some e | Inr summary \<Rightarrow> None))"
proof -
  let ?t0 = "init_commute_db db"
  let ?w = "StWarning Msg_enter_route_name"
  from assms(2) have blank: "strip (form_route_name frm) = []"
    by (simp only: strip_empty_iff)
  have sub: "submit_entry clock frm t = Inr (t, [?w])" for t
    using assms(1) blank by (rule submit_entry_blank)
  note r = render_after_submit [OF sub [of ?t0], of fp]
  have idle: "submit_entry clock (frm\<lparr>submitted := False\<rparr>) ?t0 = Inr (?t0, [])"
    by (simp add: submit_entry_idle)
  note r' = render_after_submit [OF idle, of fp]
  have b: "table_rows (fst (render_commute_tracker clock fp frm db))
         = (case db of None \<Rightarrow> [] | Some t0 \<Rightarrow> table_rows t0)"
    unfolding r(1) by (simp add: init_commute_db_def split: option.splits)
  have c: "hd (fst (snd (render_commute_tracker clock fp frm db))) = ?w"
    using r(2) by (rule hd_of_take)
  have d: "StSuccess Msg_saved \<notin> set (fst (snd (render_commute_tracker clock fp frm db)))"
    using r(4) by auto
  have e: "snd (snd (render_commute_tracker clock fp frm db))
         = snd (snd (render_commute_tracker clock fp (frm\<lparr>submitted := False\<rparr>) db))"
    by (simp only: r(3) r'(3))
  have f: "app_mode inp = ''Commute Tracker'' \<and> form inp = frm \<and> now env = clock
          \<and> sqlite_real env = fp \<and> database st = db \<longrightarrow>
        database (fst (main env inp st)) = Some (init_commute_db db)
        \<and> session (fst (main env inp st)) = session st
        \<and> snd (snd (main env inp st))
            = (case fetch_commute_summary fp (init_commute_db db) of
                 Inl e \<Rightarrow> Some e | Inr summary \<Rightarrow> None)"
    using r(1) r(3) by (simp add: main_tracker)
  from sub [of t] r(1) b c d r(3) e f show ?thesis
    by (intro conjI)
qed

theorem blank_route_name_rejected_witness:
  "submitted blank_submission
   \<and> list_all isspace (utf8_chars (form_route_name blank_submission))
   \<and> submit_entry noon blank_submission route_table
       = Inr (route_table, [StWarning Msg_enter_route_name])
   \<and> fst (render_commute_tracker noon half_up_tenths blank_submission (Some route_table))
       = route_table
   \<and> hd (fst (snd (render_commute_tracker noon half_up_tenths blank_submission
                      (Some route_table))))
       = StWarning Msg_enter_route_name"
proof -
  have s: "submitted blank_submission"
    by (simp add: blank_submission_def blank_form_def)
  have w: "list_all isspace (utf8_chars (form_route_name blank_submission))"
    by (simp add: blank_submission_def blank_form_def utf8_len_def isspace_def whitespace_def)
  note inst = blank_route_name_rejected
    [OF s w, of noon route_table half_up_tenths "Some route_table"]
  from inst have a: "submit_entry noon blank_submission route_table
       = Inr (route_table, [StWarning Msg_enter_route_name])"
    by (rule conjunct1)
  from inst have "fst (render_commute_tracker noon half_up_tenths blank_submission
                        (Some route_table)) = init_commute_db (Some route_table)"
    and h: "hd (fst (snd (render_commute_tracker noon half_up_tenths blank_submission
                      (Some route_table))))
       = StWarning Msg_enter_route_name"
    by blast+
  then have b: "fst (render_commute_tracker noon half_up_tenths blank_submission
                        (Some route_table)) = route_table"
    by (simp add: init_commute_db_def)
  from s w a b h show ?thesis
    by (intro conjI)
qed

text \<open>
  Claim C8, as stated, fails on a store whose largest \<open>id\<close> is the largest 64-bit number:
  the insertion of a valid submission raises and no row is added.
\<close>

theorem full_table_insert_counterexample:
  "submitted home_submission
   \<and> strip (form_route_name home_submission) = ''Home -> Office''
   \<and> submit_entry noon home_submission full_table = Inl DatabaseFull
   \<and> render_commute_tracker noon half_up_tenths home_submission (Some full_table)
       = (full_table, [], Some DatabaseFull)"
proof -
  have s: "submitted home_submission"
    by (simp add: home_submission_def blank_form_def)
  have route: "strip (form_route_name home_submission) = ''Home -> Office''"
    by (simp add: home_submission_def blank_form_def strip_def utf8_len_def isspace_def
        whitespace_def)
  then have ne: "strip (form_route_name home_submission) \<noteq> []"
    by simp
  have m: "in_int64 (form_duration_minutes home_submission)"
    by (simp add: home_submission_def blank_form_def in_int64_def)
  have big: "2 ^ 63 - 1 \<le> largest_row_id full_table"
    by (simp add: largest_row_id_def full_table_def mk_log_def)
  have sub: "submit_entry noon home_submission full_table = Inl DatabaseFull"
    by (simp add: submit_entry_valid [OF s ne] insert_full [OF m big])
  then have "submit_entry noon home_submission (init_commute_db (Some full_table))
             = Inl DatabaseFull"
    by (simp add: init_commute_db_def)
  then have "render_commute_tracker noon half_up_tenths home_submission (Some full_table)
       = (init_commute_db (Some full_table), [], Some DatabaseFull)"
    by (rule render_submit_raises)
  then have r: "render_commute_tracker noon half_up_tenths home_submission (Some full_table)
       = (full_table, [], Some DatabaseFull)"
    by (simp add: init_commute_db_def)
  from s route sub r show ?thesis
    by (intro conjI)
qed

text \<open>
  Claim C8, amended. A submission whose route name is non-empty after trimming, whose duration
  is a 64-bit number, on a store whose ids so far are below \<open>2 ^ 63 - 1\<close>, inserts exactly
  one row, after the existing rows, which stay as they are. Its route name and notes are the
  trimmed inputs, its \<open>created_at\<close> is the clock reading in ISO format to the second (the
  microseconds do not enter), and its \<open>id\<close> is larger than every stored \<open>id\<close>.
\<close>

theorem valid_submission_inserts_one_row:
  assumes "submitted frm" and "strip (form_route_name frm) \<noteq> []"
    and "in_int64 (form_duration_minutes frm)"
    and "seq (init_commute_db db) < 2 ^ 63 - 1"
    and "list_all (\<lambda>r. row_id r < 2 ^ 63 - 1) (table_rows (init_commute_db db))"
  shows "submit_entry clock frm (init_commute_db db)
           = Inr (fst (render_commute_tracker clock fp frm db), [StSuccess Msg_saved])
         \<and> table_rows (fst (render_commute_tracker clock fp frm db))
         = table_rows (init_commute_db db)
           @ [\<lparr>row_id = largest_row_id (init_commute_db db) + 1,
               travel_date = date_isoformat (form_travel_date frm),
               travel_time = strftime_HM (form_travel_time frm),
               route_name = strip (form_route_name frm),
               duration_minutes = form_duration_minutes frm,
               notes_col = Some (strip (form_notes frm)),
               created_at = isoformat_seconds clock\<rparr>]
         \<and> table_rows (init_commute_db db) = (case db of None \<Rightarrow> [] | Some t \<Rightarrow> table_rows t)
         \<and> length (table_rows (fst (render_commute_tracker clock fp frm db)))
             = length (table_rows (init_commute_db db)) + 1
         \<and> list_all (\<lambda>r. row_id r < largest_row_id (init_commute_db db) + 1)
             (table_rows (init_commute_db db))
         \<and> isoformat_seconds (clock\<lparr>time_part := (time_part clock)\<lparr>microsecond := us\<rparr>\<rparr>)
             = isoformat_seconds clock
         \<and> hd (fst (snd (render_commute_tracker clock fp frm db))) = StSuccess Msg_saved"
proof -
  let ?t0 = "init_commute_db db"
  let ?new = "\<lparr>row_id = largest_row_id ?t0 + 1,
               travel_date = date_isoformat (form_travel_date frm),
               travel_time = strftime_HM (form_travel_time frm),
               route_name = strip (form_route_name frm),
               duration_minutes = form_duration_minutes frm,
               notes_col = Some (strip (form_notes frm)),
               created_at = isoformat_seconds clock\<rparr>"
  let ?t1 = "\<lparr>table_rows = table_rows ?t0 @ [?new], seq = largest_row_id ?t0 + 1\<rparr>"
  from assms(5) have ids: "\<forall>r\<in>set (table_rows ?t0). row_id r < 2 ^ 63 - 1"
    by (simp only: list_all_iff)
  have room: "largest_row_id ?t0 < 2 ^ 63 - 1"
    using assms(4) ids by (rule largest_row_id_less)
  have sub: "submit_entry clock frm ?t0 = Inr (?t1, [StSuccess Msg_saved])"
    by (simp add: submit_entry_valid [OF assms(1,2)] insert_ok [OF assms(3) room])
  note r = render_after_submit [OF sub, of fp]
  have a: "submit_entry clock frm ?t0
           = Inr (fst (render_commute_tracker clock fp frm db), [StSuccess Msg_saved])"
    by (simp only: r(1) sub)
  have rows: "table_rows (fst (render_commute_tracker clock fp frm db))
              = table_rows ?t0 @ [?new]"
    by (simp add: r(1))
  then have len: "length (table_rows (fst (render_commute_tracker clock fp frm db)))
             = length (table_rows ?t0) + 1"
    by simp
  have old: "table_rows ?t0 = (case db of None \<Rightarrow> [] | Some t \<Rightarrow> table_rows t)"
    by (simp add: init_commute_db_def split: option.splits)
  have "\<forall>r\<in>set (table_rows ?t0). row_id r < largest_row_id ?t0 + 1"
    using largest_row_id_ge [of _ ?t0] by fastforce
  then have fresh: "list_all (\<lambda>r. row_id r < largest_row_id ?t0 + 1) (table_rows ?t0)"
    by (simp only: list_all_iff)
  have shown: "hd (fst (snd (render_commute_tracker clock fp frm db))) = StSuccess Msg_saved"
    using r(2) by (rule hd_of_take)
  from a rows old len fresh isoformat_seconds_drops_microseconds shown
  show ?thesis
    by (intro conjI)
qed

theorem valid_submission_inserts_one_row_witness:
  "submitted home_submission
   \<and> strip (form_route_name home_submission) \<noteq> []
   \<and> in_int64 (form_duration_minutes home_submission)
   \<and> seq (init_commute_db (Some route_table)) < 2 ^ 63 - 1
   \<and> list_all (\<lambda>r. row_id r < 2 ^ 63 - 1) (table_rows (init_commute_db (Some route_table)))
   \<and> table_rows (fst (render_commute_tracker noon half_up_tenths home_submission
                         (Some route_table)))
     = table_rows route_table
       @ [\<lparr>row_id = 4, travel_date = ''2024-01-02'', travel_time = ''08:30'',
           route_name = ''Home -> Office'', duration_minutes = 42,
           notes_col = Some ''rain'', created_at = ''2024-01-02T12:00:07''\<rparr>]"
proof -
  have s: "submitted home_submission"
    by (simp add: home_submission_def blank_form_def)
  have route: "strip (form_route_name home_submission) = ''Home -> Office''"
    by (simp add: home_submission_def blank_form_def strip_def utf8_len_def isspace_def
        whitespace_def)
  then have ne: "strip (form_route_name home_submission) \<noteq> []"
    by simp
  have note_text: "strip (form_notes home_submission) = ''rain''"
    by (simp add: home_submission_def blank_form_def strip_def utf8_len_def isspace_def
        whitespace_def newline_def)
  have dt: "date_isoformat (form_travel_date home_submission) = ''2024-01-02''"
    by (simp add: home_submission_def blank_form_def date_isoformat_def zero_pad_def
        digits10.simps digit_char_def)
  have tm: "strftime_HM (form_travel_time home_submission) = ''08:30''"
    by (simp add: home_submission_def blank_form_def strftime_HM_def zero_pad_def
        digits10.simps digit_char_def)
  have stamp: "isoformat_seconds noon = ''2024-01-02T12:00:07''"
    by (simp add: noon_def isoformat_seconds_def date_isoformat_def zero_pad_def
        digits10.simps digit_char_def)
  have dur: "form_duration_minutes home_submission = 42"
    by (simp add: home_submission_def blank_form_def)
  then have m: "in_int64 (form_duration_minutes home_submission)"
    by (simp add: in_int64_def)
  have init: "init_commute_db (Some route_table) = route_table"
    by (simp add: init_commute_db_def)
  have sq: "seq (init_commute_db (Some route_table)) < 2 ^ 63 - 1"
    unfolding init by (simp add: route_table_def)
  have ids: "list_all (\<lambda>r. row_id r < 2 ^ 63 - 1) (table_rows (init_commute_db (Some route_table)))"
    unfolding init by (simp add: route_table_def mk_log_def)
  have nid: "largest_row_id route_table + 1 = 4"
    by (simp add: largest_row_id_def route_table_def mk_log_def)
  from valid_submission_inserts_one_row [OF s ne m sq ids, of noon half_up_tenths]
  have "table_rows (fst (render_commute_tracker noon half_up_tenths home_submission
                           (Some route_table)))
         = table_rows (init_commute_db (Some route_table))
           @ [\<lparr>row_id = largest_row_id (init_commute_db (Some route_table)) + 1,
               travel_date = date_isoformat (form_travel_date home_submission),
               travel_time = strftime_HM (form_travel_time home_submission),
               route_name = strip (form_route_name home_submission),
               duration_minutes = form_duration_minutes home_submission,
               notes_col = Some (strip (form_notes home_submission)),
               created_at = isoformat_seconds noon\<rparr>]"
    by blast
  then have "table_rows (fst (render_commute_tracker noon half_up_tenths home_submission
                           (Some route_table)))
     = table_rows route_table
       @ [\<lparr>row_id = 4, travel_date = ''2024-01-02'', travel_time = ''08:30'',
           route_name = ''Home -> Office'', duration_minutes = 42,
           notes_col = Some ''rain'', created_at = ''2024-01-02T12:00:07''\<rparr>]"
    by (simp only: init nid dt tm route dur note_text stamp)
  with s ne m sq ids show ?thesis
    by (intro conjI)
qed

section \<open>Properties of the webhook URL resolution\<close>

lemma spec_single_line:
  assumes "newline \<notin> set raw"
  shows "spec_first_url_line raw
         = (if strip raw \<noteq> [] \<and> \<not> startswith (strip raw) ''#'' then Some (strip raw) else None)"
proof -
  from assms have "split_char newline raw = [raw]"
    by (rule split_char_nosep)
  then show ?thesis
    by (simp add: spec_first_url_line_def)
qed


lemma load_from_content:
  "load_webhook_url (FileContent raw) env_value
     = (if strip raw \<noteq> [] \<and> \<not> startswith (strip raw) ''#'' then Inr (Some (strip raw))
        else Inr (webhook_url_from_env env_value))"
  by (simp add: load_webhook_url_def Let_def)

lemma load_some_nonempty:
  assumes "load_webhook_url config env_value = Inr (Some url)"
  shows "url \<noteq> []"
proof (cases config)
  case FileNotFound
  with assms show ?thesis
    by (auto simp: load_webhook_url_def webhook_url_from_env_def split: option.splits if_splits)
next
  case FileUnreadable
  with assms show ?thesis
    by (simp add: load_webhook_url_def)
next
  case (FileContent raw)
  with assms show ?thesis
    by (auto simp: load_from_content webhook_url_from_env_def split: option.splits if_splits)
qed


text \<open>
  Claim C6, as stated, fails: \<open>load_webhook_url\<close> does not look for the first line that is
  neither empty nor a comment. For a file whose first line is a comment and whose second line
  is the URL, the whole content starts with \<open>#\<close>, the file is skipped, and with no environment
  variable the application stops although such a line exists.
\<close>

theorem first_url_line_counterexample:
  "spec_first_url_line commented_config = Some ''http://example.com/hook''
   \<and> load_webhook_url (FileContent commented_config) None = Inr None
   \<and> startup (FileContent commented_config) None
       = Stopped [Msg_webhook_url_not_set] [Msg_create_config_file]"
proof -
  have lines: "split_char newline commented_config = [''# webhook'', ''http://example.com/hook'']"
    by (simp add: commented_config_def newline_def)
  have s1: "strip ''# webhook'' = ''# webhook''"
    by (simp add: strip_def utf8_len_def isspace_def whitespace_def)
  have s2: "strip ''http://example.com/hook'' = ''http://example.com/hook''"
    by (simp add: strip_def utf8_len_def isspace_def whitespace_def)
  have s3: "strip commented_config = commented_config"
    by (simp add: commented_config_def newline_def strip_def utf8_len_def isspace_def
        whitespace_def)
  have a: "spec_first_url_line commented_config = Some ''http://example.com/hook''"
    by (simp add: spec_first_url_line_def lines s1 s2 startswith_def)
  have b: "load_webhook_url (FileContent commented_config) None = Inr None"
    by (simp add: load_from_content s3 webhook_url_from_env_def)
       (simp add: commented_config_def startswith_def)
  then have c: "startup (FileContent commented_config) None
       = Stopped [Msg_webhook_url_not_set] [Msg_create_config_file]"
    by (simp add: startup_def)
  from a b c show ?thesis
    by (intro conjI)
qed

text \<open>
  Claim C6, amended. When the content of the configuration file, with surrounding whitespace
  removed, is a single line that is non-empty and does not start with \<open>#\<close>, the URL is that
  line. When the file is absent, or its trimmed content is empty or starts with \<open>#\<close>, the
  URL is the value of the environment variable \<open>WEBHOOK_URL\<close> if that is set and non-empty.
  When neither yields a URL the application shows the setup guidance and stops; otherwise it
  starts with the URL found.
\<close>

theorem webhook_url_resolution:
  "(newline \<notin> set (strip raw) \<and> strip raw \<noteq> [] \<and> \<not> startswith (strip raw) ''#''
      \<longrightarrow> load_webhook_url (FileContent raw) env_value = Inr (Some (strip raw)))
   \<and> (strip raw = [] \<or> startswith (strip raw) ''#''
      \<longrightarrow> load_webhook_url (FileContent raw) env_value = Inr (webhook_url_from_env env_value))
   \<and> load_webhook_url FileNotFound env_value = Inr (webhook_url_from_env env_value)
   \<and> webhook_url_from_env env_value
       = (case env_value of None \<Rightarrow> None | Some url \<Rightarrow> if url \<noteq> [] then Some url else None)
   \<and> (newline \<notin> set raw \<longrightarrow> load_webhook_url (FileContent raw) None = Inr (spec_first_url_line raw))
   \<and> (load_webhook_url config env_value = Inr None \<longrightarrow>
        startup config env_value = Stopped [Msg_webhook_url_not_set] [Msg_create_config_file])
   \<and> (load_webhook_url config env_value = Inr (Some url) \<longrightarrow>
        url \<noteq> [] \<and> startup config env_value = Started url)"
proof (intro conjI impI)
  assume "newline \<notin> set (strip raw) \<and> strip raw \<noteq> [] \<and> \<not> startswith (strip raw) ''#''"
  then show "load_webhook_url (FileContent raw) env_value = Inr (Some (strip raw))"
    by (simp add: load_from_content)
next
  assume "strip raw = [] \<or> startswith (strip raw) ''#''"
  then show "load_webhook_url (FileContent raw) env_value = Inr (webhook_url_from_env env_value)"
    by (auto simp: load_from_content)
next
  show "load_webhook_url FileNotFound env_value = Inr (webhook_url_from_env env_value)"
    by (simp add: load_webhook_url_def)
  show "webhook_url_from_env env_value
       = (case env_value of None \<Rightarrow> None | Some url \<Rightarrow> if url \<noteq> [] then Some url else None)"
    by (simp add: webhook_url_from_env_def)
next
  assume "newline \<notin> set raw"
  then show "load_webhook_url (FileContent raw) None = Inr (spec_first_url_line raw)"
    by (simp add: spec_single_line load_from_content webhook_url_from_env_def)
next
  assume "load_webhook_url config env_value = Inr None"
  then show "startup config env_value = Stopped [Msg_webhook_url_not_set] [Msg_create_config_file]"
    by (simp add: startup_def)
next
  assume l: "load_webhook_url config env_value = Inr (Some url)"
  then show ne: "url \<noteq> []"
    by (rule load_some_nonempty)
  with l show "startup config env_value = Started url"
    by (simp add: startup_def)
qed

theorem webhook_url_resolution_witness:
  "newline \<notin> set '' http://example.com/hook ''
   \<and> strip '' http://example.com/hook '' = ''http://example.com/hook''
   \<and> load_webhook_url (FileContent '' http://example.com/hook '') None
       = Inr (Some ''http://example.com/hook'')
   \<and> spec_first_url_line '' http://example.com/hook '' = Some ''http://example.com/hook''
   \<and> startup (FileContent '' http://example.com/hook '') None = Started ''http://example.com/hook''
   \<and> startswith (strip commented_config) ''#''
   \<and> load_webhook_url (FileContent commented_config) (Some ''http://env.example/hook'')
       = Inr (Some ''http://env.example/hook'')
   \<and> load_webhook_url FileNotFound None = Inr None
   \<and> startup FileNotFound None = Stopped [Msg_webhook_url_not_set] [Msg_create_config_file]"
proof -
  let ?raw = "'' http://example.com/hook ''"
  let ?url = "''http://example.com/hook''"
  have nl: "newline \<notin> set ?raw"
    by (simp add: newline_def)
  have st: "strip ?raw = ?url"
    by (simp add: strip_def utf8_len_def isspace_def whitespace_def)
  have cond: "newline \<notin> set (strip ?raw) \<and> strip ?raw \<noteq> [] \<and> \<not> startswith (strip ?raw) ''#''"
    unfolding st by (simp add: newline_def startswith_def)
  note from_file = webhook_url_resolution [of ?raw None "FileContent ?raw" ?url]
  note nofile = webhook_url_resolution [of ?raw None FileNotFound ?url]
  note commented = webhook_url_resolution
    [of commented_config "Some ''http://env.example/hook''" FileNotFound ?url]
  from from_file cond have "load_webhook_url (FileContent ?raw) None = Inr (Some (strip ?raw))"
    by blast
  then have a: "load_webhook_url (FileContent ?raw) None = Inr (Some ?url)"
    by (simp only: st)
  from from_file nl have "load_webhook_url (FileContent ?raw) None = Inr (spec_first_url_line ?raw)"
    by blast
  with a have b: "spec_first_url_line ?raw = Some ?url"
    by simp
  from from_file a have c: "startup (FileContent ?raw) None = Started ?url"
    by blast
  have hash: "startswith (strip commented_config) ''#''"
    by (simp add: commented_config_def newline_def strip_def utf8_len_def isspace_def
        whitespace_def startswith_def)
  from commented hash have "load_webhook_url (FileContent commented_config)
        (Some ''http://env.example/hook'')
      = Inr (webhook_url_from_env (Some ''http://env.example/hook''))"
    and "webhook_url_from_env (Some ''http://env.example/hook'')
         = (case Some ''http://env.example/hook'' of None \<Rightarrow> None
            | Some url \<Rightarrow> if url \<noteq> [] then Some url else None)"
    by blast+
  then have e: "load_webhook_url (FileContent commented_config)
        (Some ''http://env.example/hook'') = Inr (Some ''http://env.example/hook'')"
    by simp
  from nofile have "load_webhook_url FileNotFound None = Inr (webhook_url_from_env None)"
    and "webhook_url_from_env None
         = (case (None :: string option) of None \<Rightarrow> None
            | Some url \<Rightarrow> if url \<noteq> [] then Some url else None)"
    by blast+
  then have d: "load_webhook_url FileNotFound None = Inr None"
    by simp
  with nofile have f: "startup FileNotFound None
      = Stopped [Msg_webhook_url_not_set] [Msg_create_config_file]"
    by blast
  from nl st a b c hash e d f show ?thesis
    by (intro conjI)
qed

end
